theory Spec2Isabelle
  imports Complex_Main
begin

section \<open>Matrices\<close>

text \<open>
  The codels of the task \<open>predict\<close> compute on OpenCV matrices of element type
  \<open>CV_32F\<close>. A matrix is modelled as the list of its rows; the matrix declared by
  \<open>Mat m;\<close> and never sized is the empty list. Entries are real numbers: the rounding
  of single precision arithmetic is not part of the model, and the operations below are
  the textbook ones on the shapes the source builds.
\<close>

type_synonym Mat = "real list list"

definition Mat_empty :: "Mat \<Rightarrow> bool" where
  "Mat_empty m \<longleftrightarrow> concat m = []"

definition zeros :: "nat \<Rightarrow> nat \<Rightarrow> Mat" where
  "zeros r c = replicate r (replicate c 0)"

definition eye :: "nat \<Rightarrow> nat \<Rightarrow> Mat" where
  "eye r c = map (\<lambda>i. map (\<lambda>j. if i = j then 1 else 0) [0..<c]) [0..<r]"

text \<open>
  \<open>setIdentity(m, s)\<close> writes into the matrix it is given: every entry on the diagonal
  becomes \<open>s\<close>, every other entry 0. It never allocates, so the shape of \<open>m\<close> is kept.
\<close>

definition setIdentity :: "Mat \<Rightarrow> real \<Rightarrow> Mat" where
  "setIdentity m s =
     map (\<lambda>i. map (\<lambda>j. if i = j then s else 0) [0..<length (m ! i)]) [0..<length m]"

fun mat_t :: "Mat \<Rightarrow> Mat" where
  "mat_t [] = []"
| "mat_t [r] = map (\<lambda>x. [x]) r"
| "mat_t (r # rs) = map2 (#) r (mat_t rs)"

definition dot :: "real list \<Rightarrow> real list \<Rightarrow> real" where
  "dot xs ys = sum_list (map2 (*) xs ys)"

definition mat_mul :: "Mat \<Rightarrow> Mat \<Rightarrow> Mat" where
  "mat_mul A B = map (\<lambda>r. map (dot r) (mat_t B)) A"

definition mat_add :: "Mat \<Rightarrow> Mat \<Rightarrow> Mat" where
  "mat_add A B = map2 (map2 (+)) A B"

definition mat_scale :: "real \<Rightarrow> Mat \<Rightarrow> Mat" where
  "mat_scale s A = map (map ((*) s)) A"

definition mat_neg :: "Mat \<Rightarrow> Mat" where
  "mat_neg A = map (map uminus) A"

text \<open>\<open>m(Rect(x, y, w, h))\<close>: the \<open>h\<close> rows from row \<open>y\<close>, the \<open>w\<close> columns from column \<open>x\<close>.\<close>

definition roi :: "Mat \<Rightarrow> nat \<Rightarrow> nat \<Rightarrow> nat \<Rightarrow> nat \<Rightarrow> Mat" where
  "roi m x y w h = map (\<lambda>r. take w (drop x r)) (take h (drop y m))"

text \<open>\<open>blk.copyTo(m(Rect(x, y, w, h)))\<close> with \<open>blk\<close> of size \<open>h\<close> by \<open>w\<close>.\<close>

definition copyTo_roi :: "Mat \<Rightarrow> Mat \<Rightarrow> nat \<Rightarrow> nat \<Rightarrow> Mat" where
  "copyTo_roi blk m x y =
     take y m
     @ map2 (\<lambda>b r. take x r @ b @ drop (x + length b) r) blk (take (length blk) (drop y m))
     @ drop (y + length blk) m"

definition mat_col :: "Mat \<Rightarrow> nat \<Rightarrow> Mat" where
  "mat_col m i = map (\<lambda>r. [r ! i]) m"

text \<open>\<open>m.at<float>(k)\<close> on a continuous matrix: the \<open>k\<close>-th entry in row-major order.\<close>

definition at_f :: "Mat \<Rightarrow> nat \<Rightarrow> real" where
  "at_f m k = concat m ! k"

section \<open>Data of the component\<close>

record timeval =
  tv_sec :: int
  tv_usec :: int

text \<open>The sample read from the port \<open>drone\<close>; the fields are the \<open>_value\<close> members the
  codel reads. The two covariances are the arrays \<open>cov[6]\<close>.\<close>

record drone_state =
  pos_x :: real
  pos_y :: real
  pos_z :: real
  att_qw :: real
  att_qx :: real
  att_qy :: real
  att_qz :: real
  vel_vx :: real
  vel_vy :: real
  vel_vz :: real
  avel_wx :: real
  avel_wy :: real
  avel_wz :: real
  vel_cov :: "real list"
  avel_cov :: "real list"

text \<open>What section 1 of \<open>predict_main\<close> hands to the loop over the filters.\<close>

record control_s =
  control :: Mat
  process_cov :: Mat
  W_t_B :: Mat
  W_R_B :: Mat
  nostate :: bool

definition cov33 :: "real list \<Rightarrow> Mat" where
  "cov33 c = [[c ! 0, c ! 1, c ! 3],
              [c ! 1, c ! 2, c ! 2],
              [c ! 3, c ! 4, c ! 5]]"

definition quat_rot :: "real \<Rightarrow> real \<Rightarrow> real \<Rightarrow> real \<Rightarrow> Mat" where
  "quat_rot qw qx qy qz =
     [[1 - 2*qy*qy - 2*qz*qz,     2*qx*qy - 2*qz*qw,     2*qx*qz + 2*qy*qw],
      [    2*qx*qy + 2*qz*qw, 1 - 2*qx*qx - 2*qz*qz,     2*qy*qz - 2*qx*qw],
      [    2*qx*qz - 2*qy*qw,     2*qy*qz + 2*qx*qw, 1 - 2*qx*qx - 2*qy*qy]]"

text \<open>
  Section 1 of \<open>predict_main\<close> (``Get control''). The port read
  \<open>drone->read(self) == genom_ok && drone->data(self)\<close> is the option: \<open>None\<close> when there
  is no sample. \<open>process_cov\<close> is declared without a size, and \<open>setIdentity\<close> is called on
  it as it is.
\<close>

definition get_control :: "Mat \<Rightarrow> drone_state option \<Rightarrow> control_s" where
  "get_control ctb drone =
     (case drone of
        None \<Rightarrow>
          \<lparr>control = zeros 6 1,
           process_cov = setIdentity [] (1 / 1000),
           W_t_B = zeros 3 1,
           W_R_B = zeros 3 3,
           nostate = True\<rparr>
      | Some d \<Rightarrow>
          (let u = [[vel_vx d], [vel_vy d], [vel_vz d], [avel_wx d], [avel_wy d], [avel_wz d]];
               wtb = [[pos_x d], [pos_y d], [pos_z d]];
               wrb = quat_rot (att_qw d) (att_qx d) (att_qy d) (att_qz d);
               B_R_W = mat_t wrb;
               B_T_W = copyTo_roi B_R_W (copyTo_roi B_R_W (eye 6 6) 0 0) 3 3;
               Q_v = cov33 (vel_cov d);
               Q_w = cov33 (avel_cov d)
           in \<lparr>control = mat_mul (mat_mul ctb B_T_W) u,
               process_cov = mat_add Q_v Q_w,
               W_t_B = wtb,
               W_R_B = wrb,
               nostate = False\<rparr>))"

record arucotag_calib =
  K :: Mat
  B_R_C :: Mat
  B_t_C :: Mat

text \<open>The public members of \<open>cv::KalmanFilter\<close>.\<close>

record KalmanFilter =
  statePre :: Mat
  statePost :: Mat
  transitionMatrix :: Mat
  controlMatrix :: Mat
  measurementMatrix :: Mat
  processNoiseCov :: Mat
  measurementNoiseCov :: Mat
  errorCovPre :: Mat
  gain :: Mat
  errorCovPost :: Mat

text \<open>An element of \<open>pred->filters\<close>. The member \<open>id\<close> is written \<open>id_f\<close>.\<close>

record marker_filter =
  id_f :: int
  state :: Mat
  kf :: KalmanFilter

record arucotag_predictor =
  filters :: "marker_filter list"
  new_detections :: "int list"
  meas :: "Mat list"
  C_T_B :: Mat

text \<open>
  The library calls whose bodies are not part of the component: \<open>Rodrigues\<close>,
  \<open>Mat::inv\<close>, \<open>KalmanFilter::predict\<close> and \<open>KalmanFilter::correct\<close>. They are taken as
  parameters, so every statement below holds whatever they compute. \<open>predict\<close> returns
  the member \<open>statePre\<close> and \<open>correct\<close> the member \<open>statePost\<close> of the filter they leave.
\<close>

record cvlib =
  cv_Rodrigues :: "Mat \<Rightarrow> Mat"
  cv_inv :: "Mat \<Rightarrow> Mat"
  cv_predict :: "KalmanFilter \<Rightarrow> Mat \<Rightarrow> KalmanFilter"
  cv_correct :: "KalmanFilter \<Rightarrow> Mat \<Rightarrow> KalmanFilter"

datatype genom_event =
  arucotag_start | arucotag_wait | arucotag_pause_wait
  | arucotag_main | arucotag_pause_main | arucotag_log

text \<open>
  What the C++ leaves undefined or never finishes is a value of the model: a loop whose
  16-bit counter wraps before it reaches the bound, an index past the end of a vector,
  a remainder by zero.
\<close>

datatype failure = NoReturn | OutOfRange | DivideByZero

record pose_write =
  key :: string
  px :: real
  py :: real
  pz :: real
  ts_sec :: int
  ts_nsec :: int

section \<open>Task predict: the codels start and wait\<close>

definition predict_start :: genom_event where
  "predict_start = arucotag_wait"

record extrinsics =
  trans_tx :: real
  trans_ty :: real
  trans_tz :: real
  rot_roll :: real
  rot_pitch :: real
  rot_yaw :: real

definition rpy_rot :: "real \<Rightarrow> real \<Rightarrow> real \<Rightarrow> Mat" where
  "rpy_rot r p y =
     [[cos p * cos y, sin r * sin p * cos y - cos r * sin y, cos r * sin p * cos y + sin r * sin y],
      [cos p * sin y, sin r * sin p * sin y + cos r * cos y, cos r * sin p * sin y - sin r * cos y],
      [      - sin p,                         sin r * cos p,                         cos r * cos p]]"

text \<open>
  \<open>predict_wait\<close>: the port read \<open>extrinsics->read(self) == genom_ok &&
  extrinsics->data(self)\<close> is the option. The result is the calibration, the predictor,
  the flag \<open>reset\<close> and the event yielded.
\<close>

definition predict_wait ::
  "extrinsics option \<Rightarrow> arucotag_calib \<Rightarrow> arucotag_predictor \<Rightarrow> bool
   \<Rightarrow> arucotag_calib \<times> arucotag_predictor \<times> bool \<times> genom_event" where
  "predict_wait ext calib pred reset =
     (case ext of
        Some e \<Rightarrow>
          if length (new_detections pred) \<noteq> 0 then
            (let brc = rpy_rot (rot_roll e) (rot_pitch e) (rot_yaw e);
                 C_R_B = mat_t brc;
                 tx = trans_tx e; ty = trans_ty e; tz = trans_tz e;
                 C_t_B_skew = [[0, - tz, ty], [tz, 0, - tx], [- ty, tx, 0]];
                 ctb = copyTo_roi C_t_B_skew
                         (copyTo_roi C_R_B (copyTo_roi C_R_B (C_T_B pred) 0 0) 3 3) 3 0
             in (calib\<lparr>B_t_C := [[tx], [ty], [tz]], B_R_C := brc\<rparr>,
                 pred\<lparr>C_T_B := ctb\<rparr>, reset, arucotag_main))
          else (calib, pred, False, arucotag_pause_wait)
      | None \<Rightarrow> (calib, pred, False, arucotag_pause_wait))"

section \<open>Task predict: the codel main\<close>

text \<open>\<open>std::find\<close> over \<open>new_detections\<close>: the index of the first occurrence, \<open>None\<close>
  for \<open>v->end()\<close>.\<close>

fun find_first :: "int \<Rightarrow> int list \<Rightarrow> nat option" where
  "find_first x [] = None"
| "find_first x (y # ys) = (if y = x then Some 0 else map_option Suc (find_first x ys))"

subsection \<open>Measurement covariance\<close>

definition corners :: "real \<Rightarrow> Mat" where
  "corners len =
     map (map (\<lambda>x. x * len / 2)) [[-1, 1, 1, -1], [-1, -1, 1, 1], [0, 0, 0, 0]]"

definition pix_jacobian :: "Mat \<Rightarrow> Mat" where
  "pix_jacobian hi =
     [[1 / at_f hi 2, 0, - at_f hi 0 / at_f hi 2 / at_f hi 2],
      [0, 1 / at_f hi 2, - at_f hi 1 / at_f hi 2 / at_f hi 2]]"

definition skew_of :: "Mat \<Rightarrow> Mat" where
  "skew_of ci =
     [[          0, - at_f ci 2,   at_f ci 1],
      [  at_f ci 2,           0, - at_f ci 0],
      [- at_f ci 1,   at_f ci 0,           0]]"

text \<open>The body of the loop over the four corners: the block copied into \<open>J\<close>.\<close>

definition corner_block :: "Mat \<Rightarrow> Mat \<Rightarrow> Mat \<Rightarrow> Mat \<Rightarrow> Mat" where
  "corner_block Kc C_R_M C_t_M ci =
     (let hi = mat_mul Kc (mat_add (mat_mul C_R_M ci) C_t_M);
          J_pix = pix_jacobian hi;
          J_proj = copyTo_roi (mat_mul (mat_mul (mat_neg Kc) C_R_M) (skew_of ci))
                     (copyTo_roi Kc (zeros 3 6) 0 0) 3 0;
          J_full = mat_mul J_pix J_proj
      in roi J_full 0 0 3 2)"

definition measurement_J :: "Mat \<Rightarrow> Mat \<Rightarrow> Mat \<Rightarrow> real \<Rightarrow> Mat" where
  "measurement_J Kc C_R_M C_t_M len =
     fold (\<lambda>i J. copyTo_roi (corner_block Kc C_R_M C_t_M (mat_col (corners len) i)) J 0 (i * 2))
       [0, 1, 2, 3] (zeros 8 3)"

definition measurement_cov :: "cvlib \<Rightarrow> Mat \<Rightarrow> Mat \<Rightarrow> Mat \<Rightarrow> real \<Rightarrow> Mat" where
  "measurement_cov cv Kc C_R_M C_t_M len =
     (let sigma_p = 3; J = measurement_J Kc C_R_M C_t_M len
      in mat_scale (sigma_p * sigma_p) (cv_inv cv (mat_mul (mat_t J) J)))"

subsection \<open>One filter\<close>

text \<open>\<open>period\<close> is the constant \<open>arucotag_predict_period\<close>, in milliseconds.\<close>

definition control_matrix :: "real \<Rightarrow> Mat \<Rightarrow> Mat" where
  "control_matrix period s =
     (let dt = period / 1000; x = at_f s 0; y = at_f s 1; z = at_f s 2
      in [[- dt,    0,    0,        0, - dt * z,   dt * y],
          [   0, - dt,    0,   dt * z,        0, - dt * x],
          [   0,    0, - dt, - dt * y,   dt * x,        0]])"

definition init_filter :: "Mat \<Rightarrow> marker_filter \<Rightarrow> marker_filter" where
  "init_filter m f =
     (let s = roi m 0 0 1 3
      in f\<lparr>state := s, kf := (kf f)\<lparr>statePre := s, statePost := s\<rparr>\<rparr>)"

definition predict_filter :: "cvlib \<Rightarrow> real \<Rightarrow> control_s \<Rightarrow> marker_filter \<Rightarrow> marker_filter" where
  "predict_filter cv period c f =
     (let k1 = (if nostate c then kf f
                else (kf f)\<lparr>controlMatrix := control_matrix period (state f)\<rparr>);
          k2 = cv_predict cv (k1\<lparr>processNoiseCov := process_cov c\<rparr>) (control c)
      in f\<lparr>state := statePre k2, kf := k2\<rparr>)"

definition correct_filter ::
  "cvlib \<Rightarrow> real \<Rightarrow> arucotag_calib \<Rightarrow> Mat \<Rightarrow> marker_filter \<Rightarrow> marker_filter" where
  "correct_filter cv len calib m f =
     (let C_t_M = roi m 0 0 1 3;
          C_Rod_M = roi m 0 3 1 3;
          C_R_M = cv_Rodrigues cv C_Rod_M;
          k1 = (kf f)\<lparr>measurementNoiseCov := measurement_cov cv (K calib) C_R_M C_t_M len\<rparr>;
          k2 = cv_correct cv k1 C_t_M
      in f\<lparr>state := statePost k2, kf := k2\<rparr>)"

text \<open>
  The body of the loop over the filters, up to step 4. \<open>v\<close> is \<open>new_detections\<close> and
  \<open>ms\<close> is \<open>meas\<close>; \<open>meas[j - v->begin()]\<close> past the end of \<open>meas\<close> is \<open>OutOfRange\<close>.
\<close>

definition update_filter ::
  "cvlib \<Rightarrow> real \<Rightarrow> real \<Rightarrow> arucotag_calib \<Rightarrow> control_s \<Rightarrow> int list \<Rightarrow> Mat list
   \<Rightarrow> marker_filter \<Rightarrow> failure + marker_filter" where
  "update_filter cv period len calib c v ms f =
     (case find_first (id_f f) v of
        None \<Rightarrow>
          if Mat_empty (state f) then Inr f else Inr (predict_filter cv period c f)
      | Some j \<Rightarrow>
          if length ms \<le> j then Inl OutOfRange
          else if Mat_empty (state f) then Inr (init_filter (ms ! j) f)
          else Inr (correct_filter cv len calib (ms ! j) (predict_filter cv period c f)))"

subsection \<open>Publishing\<close>

definition digit :: "nat \<Rightarrow> char" where
  "digit d = ''0123456789'' ! d"

fun string_of_nat :: "nat \<Rightarrow> string" where
  "string_of_nat n =
     (if n < 10 then [digit n] else string_of_nat (n div 10) @ [digit (n mod 10)])"

declare string_of_nat.simps [simp del]

text \<open>\<open>std::to_string\<close> on an \<open>int\<close>.\<close>

definition to_string :: "int \<Rightarrow> string" where
  "to_string i =
     (if i < 0 then CHR ''-'' # string_of_nat (nat (- i)) else string_of_nat (nat i))"

text \<open>Step 5 for one filter: nothing for an empty state, else one write on the port
  \<open>pose\<close>. \<open>tv\<close> is what \<open>gettimeofday\<close> returns there.\<close>

definition publish ::
  "arucotag_calib \<Rightarrow> control_s \<Rightarrow> timeval \<Rightarrow> marker_filter \<Rightarrow> pose_write list" where
  "publish calib c tv f =
     (if Mat_empty (state f) then []
      else
        (let W_r = mat_add (mat_mul (W_R_B c)
                     (mat_add (mat_mul (B_R_C calib) (state f)) (B_t_C calib))) (W_t_B c)
         in [\<lparr>key = to_string (id_f f),
              px = at_f W_r 0, py = at_f W_r 1, pz = at_f W_r 2,
              ts_sec = tv_sec tv, ts_nsec = tv_usec tv * 1000\<rparr>]))"

subsection \<open>The loop and the codel\<close>

text \<open>
  The loop \<open>for (uint16_t i = 0; i < filters.size(); i++)\<close>, on the filters from index
  \<open>i\<close> on. \<open>clock i\<close> is the time read in iteration \<open>i\<close>. The result is the updated
  filters and the writes on the port, in the order they are made.
\<close>

fun filters_loop ::
  "cvlib \<Rightarrow> real \<Rightarrow> real \<Rightarrow> arucotag_calib \<Rightarrow> control_s \<Rightarrow> int list \<Rightarrow> Mat list
   \<Rightarrow> (nat \<Rightarrow> timeval) \<Rightarrow> nat \<Rightarrow> marker_filter list
   \<Rightarrow> failure + (marker_filter list \<times> pose_write list)" where
  "filters_loop cv period len calib c v ms clock i [] = Inr ([], [])"
| "filters_loop cv period len calib c v ms clock i (f # fs) =
     (case update_filter cv period len calib c v ms f of
        Inl e \<Rightarrow> Inl e
      | Inr f' \<Rightarrow>
          (case filters_loop cv period len calib c v ms clock (Suc i) fs of
             Inl e \<Rightarrow> Inl e
           | Inr (fs', ws) \<Rightarrow> Inr (f' # fs', publish calib c (clock i) f' @ ws)))"

text \<open>
  \<open>predict_main\<close>. With 65536 filters or more the counter \<open>i\<close> wraps to 0 before it
  reaches \<open>filters.size()\<close> and the loop does not end. The result is the predictor, the
  writes on the port \<open>pose\<close> and the event yielded.
\<close>

definition predict_main ::
  "cvlib \<Rightarrow> real \<Rightarrow> (nat \<Rightarrow> timeval) \<Rightarrow> bool \<Rightarrow> real \<Rightarrow> arucotag_calib
   \<Rightarrow> arucotag_predictor \<Rightarrow> drone_state option
   \<Rightarrow> failure + (arucotag_predictor \<times> pose_write list \<times> genom_event)" where
  "predict_main cv period clock reset len calib pred drone =
     (if reset then Inr (pred, [], arucotag_pause_wait)
      else if 65536 \<le> length (filters pred) then Inl NoReturn
      else
        (case filters_loop cv period len calib (get_control (C_T_B pred) drone)
                (new_detections pred) (meas pred) clock 0 (filters pred) of
           Inl e \<Rightarrow> Inl e
         | Inr (fs', ws) \<Rightarrow>
             Inr (pred\<lparr>filters := fs', new_detections := []\<rparr>, ws,
                  if list_ex (\<lambda>f. \<not> Mat_empty (state f)) fs'
                  then arucotag_log else arucotag_pause_main)))"

section \<open>Task predict: the codel log\<close>

text \<open>
  The members of \<open>arucotag_log_s\<close> the codel uses; \<open>aio_fildes\<close> and \<open>aio_nbytes\<close> are
  those of its request \<open>req\<close>, whose buffer is \<open>buffer\<close>. The structure is declared outside
  the codel: the counters are natural numbers here, and the capacity of \<open>buffer\<close> is not
  modelled.
\<close>

record arucotag_log_s =
  aio_fildes :: int
  aio_nbytes :: nat
  buffer :: string
  pending :: bool
  skipped :: bool
  decimation :: nat
  missed :: nat
  total :: nat

text \<open>
  What the system returns during one call of \<open>predict_log\<close>: whether \<open>aio_error\<close> is
  \<open>EINPROGRESS\<close>, the values of \<open>aio_return\<close> and of \<open>aio_write\<close>, and the time.
\<close>

record aio_env =
  aio_error_inprogress :: bool
  aio_return_v :: int
  aio_write_v :: int
  now :: timeval

text \<open>
  The macro \<open>arucotag_log_fmt\<close> is declared outside the codel. It is a parameter: the
  rendering of the seven arguments \<open>snprintf\<close> receives after the prefix.
\<close>

type_synonym log_fmt = "int \<Rightarrow> int \<Rightarrow> int \<Rightarrow> int \<Rightarrow> real \<Rightarrow> real \<Rightarrow> real \<Rightarrow> string"

definition newline :: string where
  "newline = [CHR 0x0A]"

text \<open>What one call of \<open>snprintf\<close> formats for the filter \<open>f\<close>, before truncation.\<close>

definition log_line :: "log_fmt \<Rightarrow> bool \<Rightarrow> timeval \<Rightarrow> marker_filter \<Rightarrow> string" where
  "log_line fmt sk tv f =
     (if sk then newline else [])
     @ fmt (tv_sec tv) (tv_usec tv * 1000) (id_f f) 1
         (at_f (state f) 0) (at_f (state f) 1) (at_f (state f) 2)
     @ newline"

text \<open>
  The loop of \<open>predict_log\<close> from index \<open>i\<close> on, on the pair of \<open>aio_nbytes\<close> and
  \<open>buffer\<close>. \<open>snprintf\<close> returns the length of the whole line and leaves at most 511
  characters of it in the local array of 512.
\<close>

fun log_lines ::
  "log_fmt \<Rightarrow> bool \<Rightarrow> timeval \<Rightarrow> nat \<Rightarrow> marker_filter list \<Rightarrow> nat \<times> string \<Rightarrow> nat \<times> string" where
  "log_lines fmt sk tv i [] acc = acc"
| "log_lines fmt sk tv i (f # fs) (n, buf) =
     (if Mat_empty (state f) then log_lines fmt sk tv (Suc i) fs (n, buf)
      else
        (let s = log_line fmt sk tv f
         in log_lines fmt sk tv (Suc i) fs
              (n + length s, if i = 0 then take 511 s else buf @ take 511 s)))"

definition log_poll :: "aio_env \<Rightarrow> arucotag_log_s \<Rightarrow> arucotag_log_s" where
  "log_poll io l =
     (if total l mod decimation l = 0 \<and> pending l then
        (if \<not> aio_error_inprogress io then
           (if aio_return_v io \<le> 0 then l\<lparr>pending := False, aio_fildes := - 1\<rparr>
            else l\<lparr>pending := False\<rparr>)
         else l\<lparr>skipped := True, missed := missed l + 1\<rparr>)
      else l)"

text \<open>The second block of \<open>predict_log\<close>. The write issued is the first \<open>aio_nbytes\<close>
  characters of \<open>buffer\<close>; it is \<open>None\<close> when \<open>aio_write\<close> fails.\<close>

definition log_write ::
  "log_fmt \<Rightarrow> marker_filter list \<Rightarrow> aio_env \<Rightarrow> arucotag_log_s
   \<Rightarrow> arucotag_log_s \<times> string option" where
  "log_write fmt fs io l =
     (case log_lines fmt (skipped l) (now io) 0 fs (0, buffer l) of
        (n, buf) \<Rightarrow>
          (let l1 = l\<lparr>aio_nbytes := n, buffer := buf\<rparr>;
               l2 = (if aio_write_v io \<noteq> 0 then l1\<lparr>aio_fildes := - 1\<rparr>
                     else l1\<lparr>pending := True\<rparr>)
           in (l2\<lparr>skipped := False\<rparr>,
               if aio_write_v io \<noteq> 0 then None else Some (take n buf))))"

text \<open>
  \<open>predict_log\<close>. The pointer \<open>*log\<close> is the option \<open>lg\<close>. The result is the log state, the
  write issued if any, and the event yielded.
\<close>

definition predict_log ::
  "log_fmt \<Rightarrow> arucotag_predictor \<Rightarrow> aio_env \<Rightarrow> arucotag_log_s option
   \<Rightarrow> failure + (arucotag_log_s option \<times> string option \<times> genom_event)" where
  "predict_log fmt pred io lg =
     (case lg of
        None \<Rightarrow> Inr (None, None, arucotag_pause_main)
      | Some l \<Rightarrow>
          if 0 \<le> aio_fildes l \<and> decimation l = 0 then Inl DivideByZero
          else
            (let l1 = (if 0 \<le> aio_fildes l then log_poll io (l\<lparr>total := total l + 1\<rparr>)
                       else l)
             in if 0 \<le> aio_fildes l1 \<and> \<not> pending l1 then
                  (if 65536 \<le> length (filters pred) then Inl NoReturn
                   else
                     (case log_write fmt (filters pred) io l1 of
                        (l2, w) \<Rightarrow> Inr (Some l2, w, arucotag_pause_main)))
                else Inr (Some l1, None, arucotag_pause_main)))"

section \<open>One period of the task\<close>

text \<open>
  The task runs its codels once per period: an event \<open>pause_X\<close> ends the period and
  resumes at \<open>X\<close> in the next one, any other event continues with the codel it names
  in the same period. \<open>t_next\<close> is the codel the next period starts with.
\<close>

record task =
  t_calib :: arucotag_calib
  t_pred :: arucotag_predictor
  t_log :: "arucotag_log_s option"
  t_reset :: bool
  t_next :: genom_event

record period_in =
  in_extrinsics :: "extrinsics option"
  in_drone :: "drone_state option"
  in_clock :: "nat \<Rightarrow> timeval"
  in_aio :: aio_env

record period_out =
  out_pose :: "pose_write list"
  out_log :: "string option"

definition run_main ::
  "cvlib \<Rightarrow> real \<Rightarrow> log_fmt \<Rightarrow> real \<Rightarrow> period_in \<Rightarrow> task \<Rightarrow> failure + (task \<times> period_out)" where
  "run_main cv period fmt len inp t =
     (case predict_main cv period (in_clock inp) (t_reset t) len (t_calib t) (t_pred t)
             (in_drone inp) of
        Inl e \<Rightarrow> Inl e
      | Inr (pred', ws, ev) \<Rightarrow>
          if ev = arucotag_log then
            (case predict_log fmt pred' (in_aio inp) (t_log t) of
               Inl e \<Rightarrow> Inl e
             | Inr (log', w, ev') \<Rightarrow>
                 Inr (t\<lparr>t_pred := pred', t_log := log', t_next := arucotag_main\<rparr>,
                      \<lparr>out_pose = ws, out_log = w\<rparr>))
          else
            Inr (t\<lparr>t_pred := pred',
                   t_next := (if ev = arucotag_pause_wait then arucotag_wait
                              else arucotag_main)\<rparr>,
                 \<lparr>out_pose = ws, out_log = None\<rparr>))"

definition run_period ::
  "cvlib \<Rightarrow> real \<Rightarrow> log_fmt \<Rightarrow> real \<Rightarrow> period_in \<Rightarrow> task \<Rightarrow> failure + (task \<times> period_out)" where
  "run_period cv period fmt len inp t =
     (if t_next t = arucotag_main then run_main cv period fmt len inp t
      else
        (case predict_wait (in_extrinsics inp) (t_calib t) (t_pred t) (t_reset t) of
           (calib', pred', reset', ev) \<Rightarrow>
             (let t1 = t\<lparr>t_calib := calib', t_pred := pred', t_reset := reset',
                         t_next := arucotag_wait\<rparr>
              in if ev = arucotag_main then run_main cv period fmt len inp t1
                 else Inr (t1, \<lparr>out_pose = [], out_log = None\<rparr>))))"

text \<open>The codel \<open>predict_log\<close> over consecutive calls, each with its predictor and what
  the system returns; the result lists the write issued by each call.\<close>

fun log_calls ::
  "log_fmt \<Rightarrow> (arucotag_predictor \<times> aio_env) list \<Rightarrow> arucotag_log_s option
   \<Rightarrow> failure + (arucotag_log_s option \<times> string option list)" where
  "log_calls fmt [] lg = Inr (lg, [])"
| "log_calls fmt ((pred, io) # rest) lg =
     (case predict_log fmt pred io lg of
        Inl e \<Rightarrow> Inl e
      | Inr (log', w, ev) \<Rightarrow>
          (case log_calls fmt rest log' of
             Inl e \<Rightarrow> Inl e
           | Inr (log'', ws) \<Rightarrow> Inr (log'', w # ws)))"

section \<open>Reference definitions\<close>

text \<open>A matrix of \<open>r\<close> rows of \<open>c\<close> entries each.\<close>

definition has_shape :: "nat \<Rightarrow> nat \<Rightarrow> Mat \<Rightarrow> bool" where
  "has_shape r c m \<longleftrightarrow> length m = r \<and> list_all (\<lambda>row. length row = c) m"

text \<open>The filter a successful \<open>update_filter\<close> leaves.\<close>

definition updated ::
  "cvlib \<Rightarrow> real \<Rightarrow> real \<Rightarrow> arucotag_calib \<Rightarrow> control_s \<Rightarrow> int list \<Rightarrow> Mat list
   \<Rightarrow> marker_filter \<Rightarrow> marker_filter" where
  "updated cv period len calib c v ms f =
     (case update_filter cv period len calib c v ms f of Inr f' \<Rightarrow> f' | Inl e \<Rightarrow> f)"

text \<open>Step 5 over the filters from index \<open>i\<close> on.\<close>

fun publish_all ::
  "arucotag_calib \<Rightarrow> control_s \<Rightarrow> (nat \<Rightarrow> timeval) \<Rightarrow> nat \<Rightarrow> marker_filter list
   \<Rightarrow> pose_write list" where
  "publish_all calib c clock i [] = []"
| "publish_all calib c clock i (f # fs) =
     publish calib c (clock i) f @ publish_all calib c clock (Suc i) fs"

text \<open>The affine map of the specification,
  \<open>worldPos = R_wb \<cdot> (R_bc \<cdot> state + t_bc) + t_wb\<close>.\<close>

definition world_pos :: "Mat \<Rightarrow> Mat \<Rightarrow> Mat \<Rightarrow> Mat \<Rightarrow> Mat \<Rightarrow> Mat" where
  "world_pos R_wb R_bc t_bc t_wb s = mat_add (mat_mul R_wb (mat_add (mat_mul R_bc s) t_bc)) t_wb"

text \<open>The three values \<open>at<float>(0)\<close>, \<open>at<float>(1)\<close>, \<open>at<float>(2)\<close> read off a
  matrix, and the position a write carries.\<close>

definition xyz :: "Mat \<Rightarrow> real \<times> real \<times> real" where
  "xyz m = (at_f m 0, at_f m 1, at_f m 2)"

definition position :: "pose_write \<Rightarrow> real \<times> real \<times> real" where
  "position w = (px w, py w, pz w)"

definition tracking :: "marker_filter \<Rightarrow> bool" where
  "tracking f \<longleftrightarrow> \<not> Mat_empty (state f)"

text \<open>
  The measurement Jacobian as the specification words it: for each of the four corners
  \<open>(\<plusminus>len/2, \<plusminus>len/2, 0)\<close> of the marker, with \<open>(u, v, w) = K (R c + t)\<close>, the two rows
  of the derivative of \<open>(u/w, v/w)\<close> composed with \<open>K\<close>, stacked into eight rows.
\<close>

definition corner_xyz :: "real \<Rightarrow> (real \<times> real \<times> real) list" where
  "corner_xyz len =
     [(- (len / 2), - (len / 2), 0), (len / 2, - (len / 2), 0),
      (len / 2, len / 2, 0), (- (len / 2), len / 2, 0)]"

definition J_rows :: "Mat \<Rightarrow> Mat \<Rightarrow> Mat \<Rightarrow> real \<times> real \<times> real \<Rightarrow> Mat" where
  "J_rows Kc R t c =
     (case c of (x, y, z) \<Rightarrow>
        (let h = mat_mul Kc (mat_add (mat_mul R [[x], [y], [z]]) t);
             u = h ! 0 ! 0; v = h ! 1 ! 0; w = h ! 2 ! 0
         in mat_mul [[1 / w, 0, - (u / (w * w))], [0, 1 / w, - (v / (w * w))]] Kc))"

definition J_spec :: "Mat \<Rightarrow> Mat \<Rightarrow> Mat \<Rightarrow> real \<Rightarrow> Mat" where
  "J_spec Kc R t len = concat (map (J_rows Kc R t) (corner_xyz len))"

section \<open>A library instance and sample data\<close>

text \<open>
  An instance of the library for evaluating the codels on explicit inputs: the inverse
  of a 3 by 3 matrix by cofactors (the zero matrix when it is singular), the rotation of
  a rotation vector to first order (exact for the zero vector), and the two steps of a
  linear Kalman filter on 3 by 3 covariances.
\<close>

definition mat_sub :: "Mat \<Rightarrow> Mat \<Rightarrow> Mat" where
  "mat_sub A B = map2 (map2 (-)) A B"

definition inv33 :: "Mat \<Rightarrow> Mat" where
  "inv33 m =
     (let a = m ! 0 ! 0; b = m ! 0 ! 1; c = m ! 0 ! 2;
          d = m ! 1 ! 0; e = m ! 1 ! 1; f = m ! 1 ! 2;
          g = m ! 2 ! 0; h = m ! 2 ! 1; i = m ! 2 ! 2;
          det = a * (e * i - f * h) - b * (d * i - f * g) + c * (d * h - e * g)
      in if det = 0 then zeros 3 3
         else mat_scale (1 / det)
                [[e * i - f * h, c * h - b * i, b * f - c * e],
                 [f * g - d * i, a * i - c * g, c * d - a * f],
                 [d * h - e * g, b * g - a * h, a * e - b * d]])"

definition rodrigues1 :: "Mat \<Rightarrow> Mat" where
  "rodrigues1 r =
     (let x = at_f r 0; y = at_f r 1; z = at_f r 2
      in [[1, - z, y], [z, 1, - x], [- y, x, 1]])"

definition kf_predict :: "KalmanFilter \<Rightarrow> Mat \<Rightarrow> KalmanFilter" where
  "kf_predict k u =
     (let A = transitionMatrix k;
          x0 = mat_mul A (statePost k);
          x1 = (if Mat_empty u then x0 else mat_add x0 (mat_mul (controlMatrix k) u));
          P0 = mat_mul (mat_mul A (errorCovPost k)) (mat_t A);
          P1 = (if Mat_empty (processNoiseCov k) then P0 else mat_add P0 (processNoiseCov k))
      in k\<lparr>statePre := x1, statePost := x1, errorCovPre := P1, errorCovPost := P1\<rparr>)"

definition kf_correct :: "KalmanFilter \<Rightarrow> Mat \<Rightarrow> KalmanFilter" where
  "kf_correct k z =
     (let H = measurementMatrix k;
          temp2 = mat_mul H (errorCovPre k);
          temp3 = mat_add (mat_mul temp2 (mat_t H)) (measurementNoiseCov k);
          g = mat_t (mat_mul (inv33 temp3) temp2);
          temp5 = mat_sub z (mat_mul H (statePre k))
      in k\<lparr>gain := g,
           statePost := mat_add (statePre k) (mat_mul g temp5),
           errorCovPost := mat_sub (errorCovPre k) (mat_mul g temp2)\<rparr>)"

definition cv_ref :: cvlib where
  "cv_ref = \<lparr>cv_Rodrigues = rodrigues1, cv_inv = inv33,
             cv_predict = kf_predict, cv_correct = kf_correct\<rparr>"

text \<open>
  Modelled from the spec: the macro \<open>arucotag_log_fmt\<close> is not in the codel. The
  specification gives the line as
  \<open><timestamp_sec> <timestamp_nsec> <markerId> <flag> <x> <y> <z>\<close>; the integers are
  written in decimal and the coordinates with six decimals, cut off.
\<close>

definition show_f :: "real \<Rightarrow> string" where
  "show_f x =
     (let a = \<bar>x\<bar>; n = nat \<lfloor>a\<rfloor>; m = string_of_nat (nat \<lfloor>(a - of_nat n) * 1000000\<rfloor>)
      in (if x < 0 then ''-'' else [])
         @ string_of_nat n @ ''.'' @ replicate (6 - length m) CHR ''0'' @ m)"

definition fmt_ref :: log_fmt where
  "fmt_ref sec nsec i flag x y z =
     to_string sec @ '' '' @ to_string nsec @ '' '' @ to_string i @ '' '' @ to_string flag
     @ '' '' @ show_f x @ '' '' @ show_f y @ '' '' @ show_f z"

text \<open>A filter as \<open>KalmanFilter::init(3, 3, 6)\<close> leaves it, with the identity as
  measurement matrix, and sample inputs.\<close>

definition kf0 :: KalmanFilter where
  "kf0 = \<lparr>statePre = zeros 3 1, statePost = zeros 3 1, transitionMatrix = eye 3 3,
          controlMatrix = zeros 3 6, measurementMatrix = eye 3 3,
          processNoiseCov = eye 3 3, measurementNoiseCov = eye 3 3,
          errorCovPre = zeros 3 3, gain = zeros 3 3, errorCovPost = zeros 3 3\<rparr>"

definition new_filter :: "int \<Rightarrow> marker_filter" where
  "new_filter i = \<lparr>id_f = i, state = [], kf = kf0\<rparr>"

definition tracked :: "int \<Rightarrow> Mat \<Rightarrow> marker_filter" where
  "tracked i s = \<lparr>id_f = i, state = s, kf = kf0\<lparr>statePre := s, statePost := s\<rparr>\<rparr>"

definition calib0 :: arucotag_calib where
  "calib0 = \<lparr>K = [[2, 0, 0], [0, 2, 0], [0, 0, 1]], B_R_C = eye 3 3, B_t_C = zeros 3 1\<rparr>"

definition clock0 :: "nat \<Rightarrow> timeval" where
  "clock0 i = \<lparr>tv_sec = 0, tv_usec = 0\<rparr>"

definition d0 :: drone_state where
  "d0 = \<lparr>pos_x = 0, pos_y = 0, pos_z = 0,
         att_qw = 1, att_qx = 0, att_qy = 0, att_qz = 0,
         vel_vx = 0, vel_vy = 0, vel_vz = 0,
         avel_wx = 0, avel_wy = 0, avel_wz = 0,
         vel_cov = [1, 0, 2, 0, 3, 4],
         avel_cov = [0, 0, 0, 0, 0, 0]\<rparr>"

text \<open>
  \<open>predict_log\<close> where it returns: the log state it leaves and the write it issues.
  \<open>log_run\<close> is the same over consecutive calls.
\<close>

definition log_ok ::
  "log_fmt \<Rightarrow> marker_filter list \<Rightarrow> aio_env \<Rightarrow> arucotag_log_s
   \<Rightarrow> arucotag_log_s \<times> string option" where
  "log_ok fmt fs io l =
     (let l1 = (if 0 \<le> aio_fildes l then log_poll io (l\<lparr>total := total l + 1\<rparr>) else l)
      in if 0 \<le> aio_fildes l1 \<and> \<not> pending l1 then log_write fmt fs io l1 else (l1, None))"

fun log_run ::
  "log_fmt \<Rightarrow> (arucotag_predictor \<times> aio_env) list \<Rightarrow> arucotag_log_s
   \<Rightarrow> arucotag_log_s \<times> string option list" where
  "log_run fmt [] l = (l, [])"
| "log_run fmt ((pred, io) # rest) l =
     (case log_ok fmt (filters pred) io l of
        (l1, w) \<Rightarrow> (case log_run fmt rest l1 of (l2, ws) \<Rightarrow> (l2, w # ws)))"

text \<open>The writes a sequence of calls of \<open>predict_log\<close> issued, and which calls issued
  one.\<close>

definition writes_of ::
  "failure + (arucotag_log_s option \<times> string option list) \<Rightarrow> string option list" where
  "writes_of r = (case r of Inl e \<Rightarrow> [] | Inr (lg, ws) \<Rightarrow> ws)"

definition issued ::
  "failure + (arucotag_log_s option \<times> string option list) \<Rightarrow> bool list" where
  "issued r = map (\<lambda>w. w \<noteq> None) (writes_of r)"

text \<open>The log state when logging starts on descriptor 3 with decimation 5, and what the
  system returns at time \<open>s\<close> when the last write is finished and when it is still in
  progress.\<close>

definition log0 :: arucotag_log_s where
  "log0 = \<lparr>aio_fildes = 3, aio_nbytes = 0, buffer = [], pending = False, skipped = False,
           decimation = 5, missed = 0, total = 0\<rparr>"

definition io_done :: "int \<Rightarrow> aio_env" where
  "io_done s = \<lparr>aio_error_inprogress = False, aio_return_v = 1, aio_write_v = 0,
               now = \<lparr>tv_sec = s, tv_usec = 0\<rparr>\<rparr>"

definition io_busy :: "int \<Rightarrow> aio_env" where
  "io_busy s = \<lparr>aio_error_inprogress = True, aio_return_v = 0, aio_write_v = 0,
               now = \<lparr>tv_sec = s, tv_usec = 0\<rparr>\<rparr>"

definition pred_of :: "marker_filter list \<Rightarrow> arucotag_predictor" where
  "pred_of fs = \<lparr>filters = fs, new_detections = [], meas = [], C_T_B = eye 6 6\<rparr>"

text \<open>What a run of \<open>predict_main\<close> wrote on the port \<open>pose\<close>, and the filters it left.\<close>

definition poses_of ::
  "failure + (arucotag_predictor \<times> pose_write list \<times> genom_event) \<Rightarrow> pose_write list" where
  "poses_of r = (case r of Inl e \<Rightarrow> [] | Inr (pred', ws, ev) \<Rightarrow> ws)"

definition filters_of ::
  "failure + (arucotag_predictor \<times> pose_write list \<times> genom_event) \<Rightarrow> marker_filter list" where
  "filters_of r = (case r of Inl e \<Rightarrow> [] | Inr (pred', ws, ev) \<Rightarrow> filters pred')"

text \<open>Two measurements (translation, then rotation vector), a predictor with a new
  filter for marker 7 and a tracking filter for marker 3, both detected, and a task
  about to run \<open>main\<close>.\<close>

definition meas_a :: Mat where
  "meas_a = [[0], [0], [2], [0], [0], [0]]"

definition meas_b :: Mat where
  "meas_b = [[1], [2], [4], [0], [0], [0]]"

definition pred_ex :: arucotag_predictor where
  "pred_ex = \<lparr>filters = [new_filter 7, tracked 3 [[1], [2], [3]]],
              new_detections = [7, 3], meas = [meas_a, meas_b], C_T_B = eye 6 6\<rparr>"

definition task_ex :: "bool \<Rightarrow> task" where
  "task_ex r = \<lparr>t_calib = calib0, t_pred = pred_ex, t_log = Some log0, t_reset = r,
                t_next = arucotag_main\<rparr>"

definition inp_ex :: period_in where
  "inp_ex = \<lparr>in_extrinsics = None, in_drone = None, in_clock = clock0, in_aio = io_done 0\<rparr>"

text \<open>A bank whose first filter has not been detected yet, and ten calls of
  \<open>predict_log\<close> on it: the write of the first call is still in progress at the fifth
  and finished at the tenth.\<close>

definition bank_a :: "marker_filter list" where
  "bank_a = [new_filter 1, tracked 2 [[1], [2], [3]]]"

definition skip_trace :: "(arucotag_predictor \<times> aio_env) list" where
  "skip_trace =
     (pred_of bank_a, io_done 100) # replicate 3 (pred_of bank_a, io_done 110)
     @ (pred_of bank_a, io_busy 150) # replicate 4 (pred_of bank_a, io_done 160)
     @ [(pred_of bank_a, io_done 200)]"

definition state_of ::
  "failure + (arucotag_log_s option \<times> string option list) \<Rightarrow> arucotag_log_s option" where
  "state_of r = (case r of Inl e \<Rightarrow> None | Inr (lg, ws) \<Rightarrow> lg)"

text \<open>An odometry sample at rest at \<open>(10, 20, 30)\<close> with the identity attitude, a predictor
  with no detection, and a task whose only filter is not the one detected.\<close>

definition d1 :: drone_state where
  "d1 = \<lparr>pos_x = 10, pos_y = 20, pos_z = 30,
         att_qw = 1, att_qx = 0, att_qy = 0, att_qz = 0,
         vel_vx = 0, vel_vy = 0, vel_vz = 0,
         avel_wx = 0, avel_wy = 0, avel_wz = 0,
         vel_cov = [0, 0, 0, 0, 0, 0],
         avel_cov = [0, 0, 0, 0, 0, 0]\<rparr>"

definition pred_quiet :: arucotag_predictor where
  "pred_quiet = pred_of [new_filter 7, tracked 3 [[1], [2], [3]]]"

definition task_idle :: task where
  "task_idle = \<lparr>t_calib = calib0,
                t_pred = \<lparr>filters = [new_filter 7], new_detections = [5], meas = [meas_a],
                          C_T_B = eye 6 6\<rparr>,
                t_log = Some log0, t_reset = False, t_next = arucotag_main\<rparr>"

definition pred_two :: arucotag_predictor where
  "pred_two = pred_of [tracked 7 [[1], [2], [3]], tracked 3 [[4], [5], [6]]]"

section \<open>Shapes and the measurement Jacobian\<close>

lemma shape33: "has_shape 3 3 m \<Longrightarrow> \<exists>a b c d e f g h i. m = [[a,b,c],[d,e,f],[g,h,i]]"
  unfolding has_shape_def
  by (auto simp: length_Suc_conv numeral_3_eq_3)

lemma shape31: "has_shape 3 1 m \<Longrightarrow> \<exists>a b c. m = [[a],[b],[c]]"
  unfolding has_shape_def
  by (auto simp: length_Suc_conv numeral_3_eq_3)

lemma shape23: "has_shape 2 3 m \<Longrightarrow> \<exists>a b c d e f. m = [[a,b,c],[d,e,f]]"
  unfolding has_shape_def
  by (auto simp: length_Suc_conv numeral_3_eq_3 numeral_2_eq_2)

lemma corner_block_lit:
  "corner_block [[k11,k12,k13],[k21,k22,k23],[k31,k32,k33]]
                [[r11,r12,r13],[r21,r22,r23],[r31,r32,r33]] [[t1],[t2],[t3]] [[x],[y],[z]]
   = J_rows [[k11,k12,k13],[k21,k22,k23],[k31,k32,k33]]
                [[r11,r12,r13],[r21,r22,r23],[r31,r32,r33]] [[t1],[t2],[t3]] (x,y,z)"
  by (simp add: corner_block_def J_rows_def Let_def mat_mul_def mat_add_def dot_def
      pix_jacobian_def at_f_def roi_def copyTo_roi_def zeros_def mat_neg_def skew_of_def
      numeral_3_eq_3 numeral_2_eq_2 del: mult_eq_0_iff divide_eq_0_iff)

lemma corner_block_J_rows:
  assumes "has_shape 3 3 Kc" "has_shape 3 3 R" "has_shape 3 1 t"
  shows "corner_block Kc R t [[x],[y],[z]] = J_rows Kc R t (x, y, z)"
proof -
  from shape33 [OF assms(1)] obtain k11 k12 k13 k21 k22 k23 k31 k32 k33
    where K: "Kc = [[k11,k12,k13],[k21,k22,k23],[k31,k32,k33]]" by blast
  from shape33 [OF assms(2)] obtain r11 r12 r13 r21 r22 r23 r31 r32 r33
    where R: "R = [[r11,r12,r13],[r21,r22,r23],[r31,r32,r33]]" by blast
  from shape31 [OF assms(3)] obtain t1 t2 t3 where t: "t = [[t1],[t2],[t3]]" by blast
  show ?thesis unfolding K R t by (rule corner_block_lit)
qed

lemma J_rows_shape:
  assumes "has_shape 3 3 Kc"
  shows "has_shape 2 3 (J_rows Kc R t c)"
proof -
  from shape33 [OF assms(1)] obtain k11 k12 k13 k21 k22 k23 k31 k32 k33
    where K: "Kc = [[k11,k12,k13],[k21,k22,k23],[k31,k32,k33]]" by blast
  show ?thesis
    by (cases c) (simp add: K J_rows_def Let_def mat_mul_def has_shape_def)
qed

lemma stack4:
  assumes "has_shape 2 3 B0" "has_shape 2 3 B1" "has_shape 2 3 B2" "has_shape 2 3 B3"
  shows "copyTo_roi B3 (copyTo_roi B2 (copyTo_roi B1 (copyTo_roi B0 (zeros 8 3) 0 0) 0 2) 0 4) 0 6
         = B0 @ B1 @ B2 @ B3"
proof -
  from shape23 [OF assms(1)] obtain a0 b0 c0 d0 e0 f0 where 0: "B0 = [[a0,b0,c0],[d0,e0,f0]]" by blast
  from shape23 [OF assms(2)] obtain a1 b1 c1 d1 e1 f1 where 1: "B1 = [[a1,b1,c1],[d1,e1,f1]]" by blast
  from shape23 [OF assms(3)] obtain a2 b2 c2 d2 e2 f2 where 2: "B2 = [[a2,b2,c2],[d2,e2,f2]]" by blast
  from shape23 [OF assms(4)] obtain a3 b3 c3 d3 e3 f3 where 3: "B3 = [[a3,b3,c3],[d3,e3,f3]]" by blast
  show ?thesis
    unfolding 0 1 2 3
    by (simp add: copyTo_roi_def zeros_def numeral_eq_Suc)
qed

lemma mat_col_corners:
  "mat_col (corners len) 0 = [[- (len / 2)], [- (len / 2)], [0]]"
  "mat_col (corners len) (Suc 0) = [[len / 2], [- (len / 2)], [0]]"
  "mat_col (corners len) 2 = [[len / 2], [len / 2], [0]]"
  "mat_col (corners len) 3 = [[- (len / 2)], [len / 2], [0]]"
  by (simp_all add: mat_col_def corners_def)

lemma measurement_J_spec:
  assumes "has_shape 3 3 Kc" "has_shape 3 3 R" "has_shape 3 1 t"
  shows "measurement_J Kc R t len = J_spec Kc R t len"
  by (simp add: measurement_J_def J_spec_def corner_xyz_def mat_col_corners
      corner_block_J_rows [OF assms] stack4 [OF J_rows_shape [OF assms(1)] J_rows_shape [OF assms(1)] J_rows_shape [OF assms(1)] J_rows_shape [OF assms(1)]])

section \<open>The loop over the filters\<close>

lemma find_first_None: "find_first x v = None \<longleftrightarrow> x \<notin> set v"
  by (induction v) auto

lemma find_first_Some: "find_first x v = Some j \<Longrightarrow> j < length v \<and> v ! j = x"
  by (induction v arbitrary: j) (auto split: if_splits)

lemma find_first_mem: "x \<in> set v \<Longrightarrow> \<exists>j. find_first x v = Some j"
  by (cases "find_first x v") (auto simp: find_first_None)

lemma update_filter_ok:
  assumes "length v \<le> length ms"
  shows "update_filter cv period len calib c v ms f = Inr (updated cv period len calib c v ms f)"
proof (cases "find_first (id_f f) v")
  case None
  then show ?thesis by (simp add: updated_def update_filter_def)
next
  case (Some j)
  with find_first_Some [OF Some] assms have "\<not> length ms \<le> j" by simp
  with Some show ?thesis by (simp add: updated_def update_filter_def)
qed

lemma filters_loop_ok:
  assumes "length v \<le> length ms"
  shows "filters_loop cv period len calib c v ms clock i fs =
         Inr (map (updated cv period len calib c v ms) fs,
              publish_all calib c clock i (map (updated cv period len calib c v ms) fs))"
  by (induction fs arbitrary: i) (simp_all add: update_filter_ok [OF assms])

lemma predict_main_ok:
  assumes "\<not> reset" "length (filters pred) < 65536"
    "length (new_detections pred) \<le> length (meas pred)"
  shows "predict_main cv period clock reset len calib pred drone =
         (let c = get_control (C_T_B pred) drone;
              fs' = map (updated cv period len calib c (new_detections pred) (meas pred))
                      (filters pred)
          in Inr (pred\<lparr>filters := fs', new_detections := []\<rparr>,
                  publish_all calib c clock 0 fs',
                  if list_ex tracking fs' then arucotag_log else arucotag_pause_main))"
  using assms(1,2)
  by (simp add: predict_main_def filters_loop_ok [OF assms(3)] Let_def tracking_def [abs_def])

lemma publish_all_keys:
  "map key (publish_all calib c clock i fs) = map (\<lambda>f. to_string (id_f f)) (filter tracking fs)"
  by (induction fs arbitrary: i) (simp_all add: publish_def tracking_def Let_def)

lemma publish_all_positions:
  "map position (publish_all calib c clock i fs) =
   map (\<lambda>f. xyz (world_pos (W_R_B c) (B_R_C calib) (B_t_C calib) (W_t_B c) (state f)))
     (filter tracking fs)"
  by (induction fs arbitrary: i) (simp_all add: publish_def tracking_def Let_def xyz_def world_pos_def position_def)

lemma updated_cases:
  "updated cv period len calib c v ms f =
     (case find_first (id_f f) v of
        None \<Rightarrow> if tracking f then predict_filter cv period c f else f
      | Some j \<Rightarrow>
          if length ms \<le> j then f
          else if tracking f then correct_filter cv len calib (ms ! j) (predict_filter cv period c f)
          else init_filter (ms ! j) f)"
  by (simp add: updated_def update_filter_def tracking_def split: option.splits)

lemma dot_zeros3: "dot [0, 0, 0] ys = 0"
  by (cases ys; cases "tl ys"; cases "tl (tl ys)") (auto simp: dot_def)

lemma world_pos_zero:
  assumes "has_shape 3 3 R_bc" "has_shape 3 1 t_bc" "has_shape 3 1 s"
  shows "xyz (world_pos (zeros 3 3) R_bc t_bc (zeros 3 1) s) = (0, 0, 0)"
proof -
  from shape33 [OF assms(1)] obtain a b c d e f g h i
    where R: "R_bc = [[a,b,c],[d,e,f],[g,h,i]]" by blast
  from shape31 [OF assms(2)] obtain t1 t2 t3 where t: "t_bc = [[t1],[t2],[t3]]" by blast
  from shape31 [OF assms(3)] obtain x y z where s: "s = [[x],[y],[z]]" by blast
  show ?thesis
    by (simp add: R t s xyz_def world_pos_def zeros_def mat_mul_def mat_add_def at_f_def
        numeral_3_eq_3 dot_def)
qed

lemma world_pos_components:
  "xyz (world_pos [[w11,w12,w13],[w21,w22,w23],[w31,w32,w33]]
          [[b11,b12,b13],[b21,b22,b23],[b31,b32,b33]] [[t1],[t2],[t3]] [[p1],[p2],[p3]]
          [[x],[y],[z]])
   = (w11 * (b11*x + b12*y + b13*z + t1) + w12 * (b21*x + b22*y + b23*z + t2)
        + w13 * (b31*x + b32*y + b33*z + t3) + p1,
      w21 * (b11*x + b12*y + b13*z + t1) + w22 * (b21*x + b22*y + b23*z + t2)
        + w23 * (b31*x + b32*y + b33*z + t3) + p2,
      w31 * (b11*x + b12*y + b13*z + t1) + w32 * (b21*x + b22*y + b23*z + t2)
        + w33 * (b31*x + b32*y + b33*z + t3) + p3)"
  by (simp add: xyz_def world_pos_def mat_mul_def mat_add_def at_f_def dot_def add.assoc)

text \<open>
  Without odometry \<open>setIdentity\<close> is called on \<open>process_cov\<close> before the matrix has a
  size: the covariance handed to \<open>predict\<close> is the empty matrix, not the 3 by 3 diagonal
  of \<open>1e-3\<close>.
\<close>

lemma default_process_cov_unsized:
  "process_cov (get_control ctb None) = []
   \<and> process_cov (get_control ctb None) \<noteq> mat_scale (1 / 1000) (eye 3 3)"
  by (simp add: get_control_def setIdentity_def mat_scale_def eye_def numeral_3_eq_3)

lemma kf_predict_state_cov:
  "statePre (kf_predict (k\<lparr>processNoiseCov := Q\<rparr>) u) = statePre (kf_predict k u)"
  by (simp add: kf_predict_def Let_def)

section \<open>The log\<close>

lemma take_511: "length s < 512 \<Longrightarrow> take 511 s = s"
  by simp

lemma log_lines_append:
  assumes "i \<noteq> 0"
    and "\<forall>f\<in>set fs. tracking f \<longrightarrow> length (log_line fmt sk tv f) < 512"
  shows "log_lines fmt sk tv i fs (n, buf) =
         (n + length (concat (map (log_line fmt sk tv) (filter tracking fs))),
          buf @ concat (map (log_line fmt sk tv) (filter tracking fs)))"
  using assms
  by (induction fs arbitrary: i n buf) (simp_all add: tracking_def Let_def take_511)

lemma log_lines_first:
  assumes "tracking f"
    and "\<forall>g\<in>set (f # fs). tracking g \<longrightarrow> length (log_line fmt sk tv g) < 512"
  shows "log_lines fmt sk tv 0 (f # fs) (0, buf) =
         (length (concat (map (log_line fmt sk tv) (filter tracking (f # fs)))),
          concat (map (log_line fmt sk tv) (filter tracking (f # fs))))"
proof -
  have rest: "\<forall>g\<in>set fs. tracking g \<longrightarrow> length (log_line fmt sk tv g) < 512"
    using assms(2) by simp
  have fit: "length (log_line fmt sk tv f) < 512"
    using assms by simp
  show ?thesis
    using assms(1) fit
    by (simp add: Let_def log_lines_append [OF _ rest] tracking_def take_511)
qed

lemma log_poll_write_skipped:
  assumes "\<not> pending (log_poll io l)"
  shows "skipped (log_poll io l) = skipped l"
  using assms by (auto simp: log_poll_def split: if_splits)

lemma issued_write_concat:
  assumes "predict_log fmt pred io (Some l) = Inr (lg', Some w, ev)"
    and "filters pred \<noteq> []" and "tracking (hd (filters pred))"
    and "\<forall>f\<in>set (filters pred).
           tracking f \<longrightarrow> length (log_line fmt (skipped l) (now io) f) < 512"
  shows "w = concat (map (log_line fmt (skipped l) (now io)) (filter tracking (filters pred)))"
proof -
  obtain f fs where fs: "filters pred = f # fs" and f: "tracking f"
    using assms(2,3) by (cases "filters pred") auto
  define l1 where "l1 = (if 0 \<le> aio_fildes l then log_poll io (l\<lparr>total := total l + 1\<rparr>) else l)"
  from assms(1) have wr: "0 \<le> aio_fildes l1 \<and> \<not> pending l1"
    by (auto simp: predict_log_def l1_def Let_def split: if_splits prod.splits)
  have sk: "skipped l1 = skipped l"
    using wr log_poll_write_skipped [of io "l\<lparr>total := total l + 1\<rparr>"]
    by (auto simp: l1_def split: if_splits)
  from assms(1) wr have w: "snd (log_write fmt (filters pred) io l1) = Some w"
    by (auto simp: predict_log_def l1_def [symmetric] Let_def split: if_splits prod.splits)
  have fit: "\<forall>g\<in>set (f # fs). tracking g \<longrightarrow> length (log_line fmt (skipped l) (now io) g) < 512"
    using assms(4) fs by simp
  from w show ?thesis
    unfolding log_write_def fs sk log_lines_first [OF f fit]
    by (simp add: Let_def split: if_splits)
qed

lemma log_skip:
  assumes "0 \<le> aio_fildes l" and "decimation l \<noteq> 0"
    and "(total l + 1) mod decimation l = 0" and "pending l" and "aio_error_inprogress io"
  shows "predict_log fmt pred io (Some l) =
         Inr (Some (l\<lparr>total := total l + 1, skipped := True, missed := missed l + 1\<rparr>), None,
              arucotag_pause_main)"
  using assms by (simp add: predict_log_def log_poll_def Let_def)

lemma write_after_skip:
  assumes "predict_log fmt pred io (Some l) = Inr (lg', Some w, ev)"
    and "skipped l" and "filters pred = f # fs" and "tracking f"
    and "\<forall>f\<in>set (filters pred).
           tracking f \<longrightarrow> length (log_line fmt (skipped l) (now io) f) < 512"
  shows "\<exists>rest. w = newline
                   @ fmt (tv_sec (now io)) (tv_usec (now io) * 1000) (id_f f) 1
                       (at_f (state f) 0) (at_f (state f) 1) (at_f (state f) 2)
                   @ newline @ rest"
proof -
  have "filters pred \<noteq> []" "tracking (hd (filters pred))"
    using assms(3,4) by simp_all
  from issued_write_concat [OF assms(1) this assms(5)] assms(2,3,4)
  show ?thesis by (simp add: log_line_def)
qed

lemma log_step:
  assumes "0 \<le> aio_fildes l" and "decimation l = 5"
    and "length (filters pred) < 65536"
    and "\<not> aio_error_inprogress io" and "0 < aio_return_v io" and "aio_write_v io = 0"
  shows "\<exists>l' w. predict_log fmt pred io (Some l) = Inr (Some l', w, arucotag_pause_main)
           \<and> (w \<noteq> None \<longleftrightarrow> \<not> pending l \<or> (total l + 1) mod 5 = 0)
           \<and> pending l' \<and> 0 \<le> aio_fildes l' \<and> decimation l' = 5 \<and> total l' = total l + 1"
  using assms
  by (auto simp: predict_log_def log_poll_def log_write_def Let_def split: prod.splits)

lemma log_calls_schedule:
  assumes "0 \<le> aio_fildes l" and "decimation l = 5"
    and "\<forall>(pred, io)\<in>set calls. length (filters pred) < 65536
           \<and> \<not> aio_error_inprogress io \<and> 0 < aio_return_v io \<and> aio_write_v io = 0"
  shows "\<exists>l' ws. log_calls fmt calls (Some l) = Inr (Some l', ws)
           \<and> length ws = length calls
           \<and> (\<forall>k<length calls.
                 ws ! k \<noteq> None \<longleftrightarrow> k = 0 \<and> \<not> pending l \<or> (total l + k + 1) mod 5 = 0)"
  using assms
proof (induction calls arbitrary: l)
  case Nil
  then show ?case by simp
next
  case (Cons a calls)
  obtain pred io where a: "a = (pred, io)" by (cases a)
  from Cons.prems a have ok: "length (filters pred) < 65536" "\<not> aio_error_inprogress io"
    "0 < aio_return_v io" "aio_write_v io = 0" by auto
  from log_step [OF Cons.prems(1,2) ok, of fmt] obtain l1 w where
    s: "predict_log fmt pred io (Some l) = Inr (Some l1, w, arucotag_pause_main)"
    and w: "w \<noteq> None \<longleftrightarrow> \<not> pending l \<or> (total l + 1) mod 5 = 0"
    and l1: "pending l1" "0 \<le> aio_fildes l1" "decimation l1 = 5" "total l1 = total l + 1"
    by (elim exE conjE) (rule that)
  from Cons.prems(3) have rest: "\<forall>(pred, io)\<in>set calls. length (filters pred) < 65536
           \<and> \<not> aio_error_inprogress io \<and> 0 < aio_return_v io \<and> aio_write_v io = 0" by simp
  from Cons.IH [OF l1(2,3) rest] obtain l2 ws where
    r: "log_calls fmt calls (Some l1) = Inr (Some l2, ws)" "length ws = length calls"
    and ws: "\<forall>k<length calls. ws ! k \<noteq> None \<longleftrightarrow> k = 0 \<and> \<not> pending l1 \<or> (total l1 + k + 1) mod 5 = 0"
    by blast
  have "\<forall>k<length (a # calls).
          (w # ws) ! k \<noteq> None \<longleftrightarrow> k = 0 \<and> \<not> pending l \<or> (total l + k + 1) mod 5 = 0"
  proof (intro allI impI)
    fix k assume k: "k < length (a # calls)"
    show "(w # ws) ! k \<noteq> None \<longleftrightarrow> k = 0 \<and> \<not> pending l \<or> (total l + k + 1) mod 5 = 0"
    proof (cases k)
      case 0
      with w show ?thesis by simp
    next
      case (Suc j)
      with k ws l1 show ?thesis by simp
    qed
  qed
  with s r show ?case by (simp add: a)
qed

lemma one_in_five:
  fixes t :: nat
  assumes "\<forall>k<5. P (ws ! k) \<longleftrightarrow> (t + k + 1) mod 5 = 0" and "length ws = 5"
  shows "length (filter P ws) = 1"
proof -
  from assms(2) obtain a b c d e where ws: "ws = [a, b, c, d, e]"
    by (auto simp: length_Suc_conv numeral_eq_Suc)
  have p: "P a \<longleftrightarrow> (t + 1) mod 5 = 0" "P b \<longleftrightarrow> (t + 2) mod 5 = 0"
    "P c \<longleftrightarrow> (t + 3) mod 5 = 0" "P d \<longleftrightarrow> (t + 4) mod 5 = 0" "P e \<longleftrightarrow> (t + 5) mod 5 = 0"
    using assms(1) [rule_format, of 0] assms(1) [rule_format, of 1] assms(1) [rule_format, of 2]
      assms(1) [rule_format, of 3] assms(1) [rule_format, of 4]
    by (simp_all add: ws ac_simps)
  consider "t mod 5 = 0" | "t mod 5 = 1" | "t mod 5 = 2" | "t mod 5 = 3" | "t mod 5 = 4"
    by arith
  then show ?thesis
  proof cases
    case 1
    then have "(t + 1) mod 5 \<noteq> 0" "(t + 2) mod 5 \<noteq> 0" "(t + 3) mod 5 \<noteq> 0"
      "(t + 4) mod 5 \<noteq> 0" "(t + 5) mod 5 = 0" by presburger+
    with p show ?thesis by (simp add: ws)
  next
    case 2
    then have "(t + 1) mod 5 \<noteq> 0" "(t + 2) mod 5 \<noteq> 0" "(t + 3) mod 5 \<noteq> 0"
      "(t + 4) mod 5 = 0" "(t + 5) mod 5 \<noteq> 0" by presburger+
    with p show ?thesis by (simp add: ws)
  next
    case 3
    then have "(t + 1) mod 5 \<noteq> 0" "(t + 2) mod 5 \<noteq> 0" "(t + 3) mod 5 = 0"
      "(t + 4) mod 5 \<noteq> 0" "(t + 5) mod 5 \<noteq> 0" by presburger+
    with p show ?thesis by (simp add: ws)
  next
    case 4
    then have "(t + 1) mod 5 \<noteq> 0" "(t + 2) mod 5 = 0" "(t + 3) mod 5 \<noteq> 0"
      "(t + 4) mod 5 \<noteq> 0" "(t + 5) mod 5 \<noteq> 0" by presburger+
    with p show ?thesis by (simp add: ws)
  next
    case 5
    then have "(t + 1) mod 5 = 0" "(t + 2) mod 5 \<noteq> 0" "(t + 3) mod 5 \<noteq> 0"
      "(t + 4) mod 5 \<noteq> 0" "(t + 5) mod 5 \<noteq> 0" by presburger+
    with p show ?thesis by (simp add: ws)
  qed
qed

lemma predict_log_ok:
  assumes "decimation l \<noteq> 0" and "length (filters pred) < 65536"
  shows "predict_log fmt pred io (Some l) =
         (case log_ok fmt (filters pred) io l of
            (l', w) \<Rightarrow> Inr (Some l', w, arucotag_pause_main))"
  using assms by (simp add: predict_log_def log_ok_def Let_def split: prod.splits)

lemma log_ok_decimation: "decimation (fst (log_ok fmt fs io l)) = decimation l"
  by (simp add: log_ok_def log_poll_def log_write_def Let_def split: prod.splits)

lemma log_calls_ok:
  assumes "decimation l \<noteq> 0"
    and "\<forall>(pred, io)\<in>set calls. length (filters pred) < 65536"
  shows "log_calls fmt calls (Some l) =
         (case log_run fmt calls l of (l', ws) \<Rightarrow> Inr (Some l', ws))"
  using assms
proof (induction calls arbitrary: l)
  case Nil
  then show ?case by simp
next
  case (Cons a calls)
  obtain pred io where a: "a = (pred, io)" by (cases a)
  obtain l1 w where s: "log_ok fmt (filters pred) io l = (l1, w)"
    by (cases "log_ok fmt (filters pred) io l")
  from log_ok_decimation [of fmt "filters pred" io l] s Cons.prems(1)
  have d: "decimation l1 \<noteq> 0" by simp
  from Cons.prems(2) a have len: "length (filters pred) < 65536"
    and rest: "\<forall>(pred, io)\<in>set calls. length (filters pred) < 65536" by auto
  show ?case
    by (simp add: a predict_log_ok [OF Cons.prems(1) len] s Cons.IH [OF d rest]
        split: prod.splits)
qed

section \<open>The claims\<close>

text \<open>
  C1 (amended). In a run of \<open>predict_main\<close> without reset and without an odometry sample,
  every tracking filter is predicted with the zero control vector of six entries, nothing
  of its Kalman filter but the process covariance being set before; a filter with a new
  detection is then corrected. Every position written is the affine map with the zero
  matrix as world rotation and the zero vector as world translation: \<open>(0, 0, 0)\<close> when the
  camera rotation is 3 by 3 and the camera translation and the states are 3 by 1. The
  value of the process covariance is not part of the statement.
\<close>

theorem no_odometry_fallback:
  assumes "\<not> reset" and "length (filters pred) < 65536"
    and "length (new_detections pred) \<le> length (meas pred)"
  shows "\<exists>pred' ws ev.
           predict_main cv period clock reset len calib pred None = Inr (pred', ws, ev)
           \<and> length (filters pred') = length (filters pred)
           \<and> (\<forall>i<length (filters pred). tracking (filters pred ! i) \<longrightarrow>
                 (\<exists>Q. let f = filters pred ! i;
                          p = cv_predict cv ((kf f)\<lparr>processNoiseCov := Q\<rparr>) (zeros 6 1);
                          fp = f\<lparr>state := statePre p, kf := p\<rparr>
                      in filters pred' ! i =
                           (case find_first (id_f f) (new_detections pred) of
                              None \<Rightarrow> fp
                            | Some j \<Rightarrow> correct_filter cv len calib (meas pred ! j) fp)))
           \<and> map position ws =
               map (\<lambda>f. xyz (world_pos (zeros 3 3) (B_R_C calib) (B_t_C calib) (zeros 3 1)
                               (state f)))
                 (filter tracking (filters pred'))
           \<and> (has_shape 3 3 (B_R_C calib) \<and> has_shape 3 1 (B_t_C calib)
                \<and> (\<forall>f\<in>set (filters pred'). tracking f \<longrightarrow> has_shape 3 1 (state f))
                \<longrightarrow> (\<forall>w\<in>set ws. position w = (0, 0, 0)))"
proof -
  let ?c = "get_control (C_T_B pred) None"
  let ?u = "updated cv period len calib ?c (new_detections pred) (meas pred)"
  let ?g = "\<lambda>f. xyz (world_pos (zeros 3 3) (B_R_C calib) (B_t_C calib) (zeros 3 1) (state f))"
  have c: "control ?c = zeros 6 1" "W_t_B ?c = zeros 3 1" "W_R_B ?c = zeros 3 3" "nostate ?c"
    by (simp_all add: get_control_def)
  have upd: "\<exists>Q. let p = cv_predict cv ((kf f)\<lparr>processNoiseCov := Q\<rparr>) (zeros 6 1);
                   fp = f\<lparr>state := statePre p, kf := p\<rparr>
               in ?u f = (case find_first (id_f f) (new_detections pred) of
                            None \<Rightarrow> fp
                          | Some j \<Rightarrow> correct_filter cv len calib (meas pred ! j) fp)"
    if "tracking f" for f
  proof (cases "find_first (id_f f) (new_detections pred)")
    case None
    with that show ?thesis
      by (intro exI [of _ "process_cov ?c"]) (simp add: updated_cases predict_filter_def c Let_def)
  next
    case (Some j)
    from find_first_Some [OF Some] assms(3) have "\<not> length (meas pred) \<le> j" by simp
    with that Some show ?thesis
      by (intro exI [of _ "process_cov ?c"]) (simp add: updated_cases predict_filter_def c Let_def)
  qed
  have pos: "map position (publish_all calib ?c clock 0 (map ?u (filters pred))) =
      map ?g (filter tracking (map ?u (filters pred)))"
    unfolding publish_all_positions by (simp add: c)
  have zero: "\<forall>w\<in>set (publish_all calib ?c clock 0 (map ?u (filters pred))).
                position w = (0, 0, 0)"
    if s: "has_shape 3 3 (B_R_C calib)" "has_shape 3 1 (B_t_C calib)"
      "\<forall>f\<in>set (map ?u (filters pred)). tracking f \<longrightarrow> has_shape 3 1 (state f)"
  proof
    fix w assume "w \<in> set (publish_all calib ?c clock 0 (map ?u (filters pred)))"
    then have "position w \<in> set (map ?g (filter tracking (map ?u (filters pred))))"
      unfolding pos [symmetric] by simp
    then obtain f where f: "f \<in> set (map ?u (filters pred))" "tracking f"
      and w: "position w = ?g f"
      by auto
    from s(3) f have "has_shape 3 1 (state f)" by blast
    then have "?g f = (0, 0, 0)" by (rule world_pos_zero [OF s(1) s(2)])
    with w show "position w = (0, 0, 0)" by (simp only:)
  qed
  have upd': "\<forall>i<length (filters pred). tracking (filters pred ! i) \<longrightarrow>
      (\<exists>Q. let f = filters pred ! i;
               p = cv_predict cv ((kf f)\<lparr>processNoiseCov := Q\<rparr>) (zeros 6 1);
               fp = f\<lparr>state := statePre p, kf := p\<rparr>
           in map ?u (filters pred) ! i =
                (case find_first (id_f f) (new_detections pred) of
                   None \<Rightarrow> fp
                 | Some j \<Rightarrow> correct_filter cv len calib (meas pred ! j) fp))"
    using upd by (simp add: Let_def)
  let ?p' = "pred\<lparr>filters := map ?u (filters pred), new_detections := []\<rparr>"
  let ?ws = "publish_all calib ?c clock 0 (map ?u (filters pred))"
  let ?ev = "if list_ex tracking (map ?u (filters pred)) then arucotag_log
             else arucotag_pause_main"
  have fp: "filters ?p' = map ?u (filters pred)" by simp
  show ?thesis
  proof (intro exI conjI)
    show "predict_main cv period clock reset len calib pred None = Inr (?p', ?ws, ?ev)"
      by (simp add: predict_main_ok [OF assms] Let_def)
    show "length (filters ?p') = length (filters pred)" by simp
    show "\<forall>i<length (filters pred). tracking (filters pred ! i) \<longrightarrow>
      (\<exists>Q. let f = filters pred ! i;
               p = cv_predict cv ((kf f)\<lparr>processNoiseCov := Q\<rparr>) (zeros 6 1);
               fp = f\<lparr>state := statePre p, kf := p\<rparr>
           in filters ?p' ! i =
                (case find_first (id_f f) (new_detections pred) of
                   None \<Rightarrow> fp
                 | Some j \<Rightarrow> correct_filter cv len calib (meas pred ! j) fp))"
      unfolding fp by (rule upd')
    show "map position ?ws = map ?g (filter tracking (filters ?p'))"
      unfolding fp by (rule pos)
    show "has_shape 3 3 (B_R_C calib) \<and> has_shape 3 1 (B_t_C calib)
            \<and> (\<forall>f\<in>set (filters ?p'). tracking f \<longrightarrow> has_shape 3 1 (state f))
          \<longrightarrow> (\<forall>w\<in>set ?ws. position w = (0, 0, 0))"
      unfolding fp using zero by blast
  qed
qed

text \<open>The theorem at a sample input.\<close>

theorem no_odometry_fallback_witness:
  "length (filters pred_quiet) < 65536
   \<and> length (new_detections pred_quiet) \<le> length (meas pred_quiet)
   \<and> tracking (filters pred_quiet ! 1)
   \<and> has_shape 3 3 (B_R_C calib0) \<and> has_shape 3 1 (B_t_C calib0)
   \<and> (\<exists>pred' ws ev.
         predict_main cv_ref 10 clock0 False 1 calib0 pred_quiet None = Inr (pred', ws, ev)
         \<and> list_all (\<lambda>f. \<not> tracking f \<or> has_shape 3 1 (state f)) (filters pred')
         \<and> state (filters pred' ! 1) = [[1], [2], [3]]
         \<and> map position ws = [(0, 0, 0)])"
proof -
  let ?r = "predict_main cv_ref 10 clock0 False 1 calib0 pred_quiet None"
  let ?g = "\<lambda>f. xyz (world_pos (zeros 3 3) (B_R_C calib0) (B_t_C calib0) (zeros 3 1) (state f))"
  have h1: "\<not> False" by simp
  have h2: "length (filters pred_quiet) < 65536" by (simp add: pred_quiet_def pred_of_def)
  have h3: "length (new_detections pred_quiet) \<le> length (meas pred_quiet)"
    by (simp add: pred_quiet_def pred_of_def)
  have h4: "tracking (filters pred_quiet ! 1)" by code_simp
  have h5: "has_shape 3 3 (B_R_C calib0)" by code_simp
  have h6: "has_shape 3 1 (B_t_C calib0)" by code_simp
  have f: "find_first (id_f (filters pred_quiet ! 1)) (new_detections pred_quiet) = None"
    by code_simp
  from no_odometry_fallback [OF h1 h2 h3, of cv_ref 10 clock0 1 calib0]
  obtain pred' ws ev where r: "?r = Inr (pred', ws, ev)"
    and u: "\<forall>i<length (filters pred_quiet). tracking (filters pred_quiet ! i) \<longrightarrow>
                 (\<exists>Q. let f = filters pred_quiet ! i;
                          p = cv_predict cv_ref ((kf f)\<lparr>processNoiseCov := Q\<rparr>) (zeros 6 1);
                          fp = f\<lparr>state := statePre p, kf := p\<rparr>
                      in filters pred' ! i =
                           (case find_first (id_f f) (new_detections pred_quiet) of
                              None \<Rightarrow> fp
                            | Some j \<Rightarrow> correct_filter cv_ref 1 calib0 (meas pred_quiet ! j) fp))"
    and p: "map position ws = map ?g (filter tracking (filters pred'))"
    and z: "has_shape 3 3 (B_R_C calib0) \<and> has_shape 3 1 (B_t_C calib0)
                \<and> (\<forall>f\<in>set (filters pred'). tracking f \<longrightarrow> has_shape 3 1 (state f))
                \<longrightarrow> (\<forall>w\<in>set ws. position w = (0, 0, 0))"
    by (elim exE conjE) (rule that)
  have e: "?r =
      (let c = get_control (C_T_B pred_quiet) None;
           fs' = map (updated cv_ref 10 1 calib0 c (new_detections pred_quiet) (meas pred_quiet))
                   (filters pred_quiet)
       in Inr (pred_quiet\<lparr>filters := fs', new_detections := []\<rparr>,
               publish_all calib0 c clock0 0 fs',
               if list_ex tracking fs' then arucotag_log else arucotag_pause_main))"
    by (rule predict_main_ok [OF h1 h2 h3])
  have fo: "filters_of ?r = filters pred'" by (simp add: r filters_of_def)
  have sh: "list_all (\<lambda>f. \<not> tracking f \<or> has_shape 3 1 (state f)) (filters_of ?r)"
    unfolding e by code_simp
  have n: "length (filter tracking (filters_of ?r)) = 1"
    unfolding e by code_simp
  from sh have sh': "\<forall>f\<in>set (filters pred'). tracking f \<longrightarrow> has_shape 3 1 (state f)"
    unfolding fo by (auto simp: list_all_iff)
  with z h5 h6 have all0: "\<forall>w\<in>set ws. position w = (0, 0, 0)" by blast
  from p n have "length ws = 1" unfolding fo by (metis length_map)
  then obtain w where ws: "ws = [w]" by (cases ws) auto
  with all0 have pz: "map position ws = [(0, 0, 0)]" by simp
  have s0: "statePre (kf_predict (kf (filters pred_quiet ! 1)) (zeros 6 1)) = [[1], [2], [3]]"
    by code_simp
  have l1: "1 < length (filters pred_quiet)" by (simp add: pred_quiet_def pred_of_def)
  from u [rule_format, OF l1 h4] obtain Q where
    q: "let f = filters pred_quiet ! 1;
            p = cv_predict cv_ref ((kf f)\<lparr>processNoiseCov := Q\<rparr>) (zeros 6 1);
            fp = f\<lparr>state := statePre p, kf := p\<rparr>
        in filters pred' ! 1 =
             (case find_first (id_f f) (new_detections pred_quiet) of
                None \<Rightarrow> fp
              | Some j \<Rightarrow> correct_filter cv_ref 1 calib0 (meas pred_quiet ! j) fp)"
    by (elim exE) (rule that)
  from q f have "state (filters pred' ! 1) =
      statePre (kf_predict ((kf (filters pred_quiet ! 1))\<lparr>processNoiseCov := Q\<rparr>) (zeros 6 1))"
    by (simp add: Let_def cv_ref_def)
  also have "\<dots> = [[1], [2], [3]]"
    unfolding kf_predict_state_cov by (rule s0)
  finally have st: "state (filters pred' ! 1) = [[1], [2], [3]]" .
  from sh have sh2: "list_all (\<lambda>f. \<not> tracking f \<or> has_shape 3 1 (state f)) (filters pred')"
    unfolding fo .
  show ?thesis
    apply (intro conjI h2 h3 h4 h5 h6)
    apply (rule exI [of _ pred'], rule exI [of _ ws], rule exI [of _ ev])
    apply (intro conjI r sh2 st pz)
    done
qed

text \<open>
  The claim as stated has the identity as the rotation used without odometry. The codel
  uses the zero matrix: a filter tracking at \<open>(1, 2, 3)\<close>, with the identity as camera
  rotation, is published at \<open>(0, 0, 0)\<close>, where the identity would give \<open>(1, 2, 3)\<close>.
\<close>

theorem identity_fallback_counterexample:
  "W_R_B (get_control (eye 6 6) None) \<noteq> eye 3 3
   \<and> map state (filters_of (predict_main cv_ref 10 clock0 False 1 calib0
                  (pred_of [tracked 3 [[1], [2], [3]]]) None)) = [[[1], [2], [3]]]
   \<and> map position (poses_of (predict_main cv_ref 10 clock0 False 1 calib0
                  (pred_of [tracked 3 [[1], [2], [3]]]) None)) = [(0, 0, 0)]
   \<and> xyz (world_pos (eye 3 3) (B_R_C calib0) (B_t_C calib0) (zeros 3 1) [[1], [2], [3]])
       = (1, 2, 3)"
proof -
  let ?p = "pred_of [tracked 3 [[1], [2], [3]]]"
  let ?r = "predict_main cv_ref 10 clock0 False 1 calib0 ?p None"
  have r: "?r =
      (let c = get_control (C_T_B ?p) None;
           fs' = map (updated cv_ref 10 1 calib0 c (new_detections ?p) (meas ?p)) (filters ?p)
       in Inr (?p\<lparr>filters := fs', new_detections := []\<rparr>,
               publish_all calib0 c clock0 0 fs',
               if list_ex tracking fs' then arucotag_log else arucotag_pause_main))"
    by (rule predict_main_ok) (simp_all add: pred_of_def)
  have "W_R_B (get_control (eye 6 6) None) \<noteq> eye 3 3" by code_simp
  moreover have "map state (filters_of ?r) = [[[1], [2], [3]]]"
    unfolding r by code_simp
  moreover have "map position (poses_of ?r) = [(0, 0, 0)]"
    unfolding r by code_simp
  moreover have "xyz (world_pos (eye 3 3) (B_R_C calib0) (B_t_C calib0) (zeros 3 1)
                   [[1], [2], [3]]) = (1, 2, 3)"
    by code_simp
  ultimately show ?thesis by blast
qed

text \<open>
  C2 (amended). In a run of \<open>predict_main\<close> without reset, a filter whose state is empty
  becomes tracking exactly when its identifier is among the new detections; its state,
  \<open>statePre\<close> and \<open>statePost\<close> are then the translation of the measurement found for it,
  and nothing else of its Kalman filter changes: no predict and no correct step is
  applied. Otherwise the filter is left as it is.
\<close>

theorem first_detection_initialises:
  assumes "\<not> reset" and "length (filters pred) < 65536"
    and "length (new_detections pred) \<le> length (meas pred)"
    and "i < length (filters pred)" and "\<not> tracking (filters pred ! i)"
    and "\<forall>m\<in>set (meas pred). \<not> Mat_empty (roi m 0 0 1 3)"
  shows "\<exists>pred' ws ev.
           predict_main cv period clock reset len calib pred drone = Inr (pred', ws, ev)
           \<and> length (filters pred') = length (filters pred)
           \<and> (tracking (filters pred' ! i)
                \<longleftrightarrow> id_f (filters pred ! i) \<in> set (new_detections pred))
           \<and> (\<forall>j. find_first (id_f (filters pred ! i)) (new_detections pred) = Some j \<longrightarrow>
                  filters pred' ! i =
                    (filters pred ! i)
                      \<lparr>state := roi (meas pred ! j) 0 0 1 3,
                       kf := (kf (filters pred ! i))
                               \<lparr>statePre := roi (meas pred ! j) 0 0 1 3,
                                statePost := roi (meas pred ! j) 0 0 1 3\<rparr>\<rparr>)
           \<and> (id_f (filters pred ! i) \<notin> set (new_detections pred) \<longrightarrow>
                  filters pred' ! i = filters pred ! i)"
proof -
  let ?f = "filters pred ! i"
  let ?c = "get_control (C_T_B pred) drone"
  let ?u = "updated cv period len calib ?c (new_detections pred) (meas pred)"
  have some: "?u ?f = init_filter (meas pred ! j) ?f \<and> j < length (meas pred)"
    if "find_first (id_f ?f) (new_detections pred) = Some j" for j
    using that find_first_Some [OF that] assms(3,5) by (simp add: updated_cases)
  have none: "?u ?f = ?f" if "id_f ?f \<notin> set (new_detections pred)"
    using that assms(5) by (simp add: updated_cases find_first_None [symmetric])
  have trk: "tracking (?u ?f) \<longleftrightarrow> id_f ?f \<in> set (new_detections pred)"
  proof (cases "find_first (id_f ?f) (new_detections pred)")
    case None
    then show ?thesis using assms(5) none by (simp add: find_first_None)
  next
    case (Some j)
    from some [OF Some] assms(6) have "tracking (?u ?f)"
      by (simp add: init_filter_def tracking_def Let_def)
    moreover from Some have "id_f ?f \<in> set (new_detections pred)"
      using find_first_None [of "id_f ?f" "new_detections pred"] by simp
    ultimately show ?thesis by simp
  qed
  show ?thesis
    using assms(4) trk some none
    by (simp add: predict_main_ok [OF assms(1-3)] Let_def init_filter_def)
qed

text \<open>The theorem at a sample input.\<close>

theorem first_detection_initialises_witness:
  "length (filters pred_ex) < 65536
   \<and> length (new_detections pred_ex) \<le> length (meas pred_ex)
   \<and> 0 < length (filters pred_ex)
   \<and> \<not> tracking (filters pred_ex ! 0)
   \<and> list_all (\<lambda>m. \<not> Mat_empty (roi m 0 0 1 3)) (meas pred_ex)
   \<and> (\<exists>pred' ws ev.
         predict_main cv_ref 10 clock0 False 1 calib0 pred_ex None = Inr (pred', ws, ev)
         \<and> tracking (filters pred' ! 0)
         \<and> filters pred' ! 0 =
             \<lparr>id_f = 7, state = [[0], [0], [2]],
              kf = kf0\<lparr>statePre := [[0], [0], [2]], statePost := [[0], [0], [2]]\<rparr>\<rparr>)"
proof -
  have h2: "length (filters pred_ex) < 65536" by (simp add: pred_ex_def)
  have h3: "length (new_detections pred_ex) \<le> length (meas pred_ex)" by (simp add: pred_ex_def)
  have h4: "0 < length (filters pred_ex)" by (simp add: pred_ex_def)
  have h5: "\<not> tracking (filters pred_ex ! 0)" by code_simp
  have h6: "\<forall>m\<in>set (meas pred_ex). \<not> Mat_empty (roi m 0 0 1 3)"
    by (simp add: pred_ex_def meas_a_def meas_b_def roi_def Mat_empty_def)
  have f: "find_first (id_f (filters pred_ex ! 0)) (new_detections pred_ex) = Some 0"
    by code_simp
  have m: "id_f (filters pred_ex ! 0) \<in> set (new_detections pred_ex)"
    by (simp add: pred_ex_def new_filter_def)
  have v: "(filters pred_ex ! 0)
             \<lparr>state := roi (meas pred_ex ! 0) 0 0 1 3,
              kf := (kf (filters pred_ex ! 0))
                      \<lparr>statePre := roi (meas pred_ex ! 0) 0 0 1 3,
                       statePost := roi (meas pred_ex ! 0) 0 0 1 3\<rparr>\<rparr>
           = \<lparr>id_f = 7, state = [[0], [0], [2]],
              kf = kf0\<lparr>statePre := [[0], [0], [2]], statePost := [[0], [0], [2]]\<rparr>\<rparr>"
    by (simp add: pred_ex_def new_filter_def meas_a_def roi_def)
  have h1: "\<not> False" by simp
  from first_detection_initialises [OF h1 h2 h3 h4 h5 h6, of cv_ref 10 clock0 1 calib0 None]
  obtain pred' ws ev where
    r: "predict_main cv_ref 10 clock0 False 1 calib0 pred_ex None = Inr (pred', ws, ev)"
    and t: "tracking (filters pred' ! 0)
              \<longleftrightarrow> id_f (filters pred_ex ! 0) \<in> set (new_detections pred_ex)"
    and s: "\<forall>j. find_first (id_f (filters pred_ex ! 0)) (new_detections pred_ex) = Some j \<longrightarrow>
                  filters pred' ! 0 =
                    (filters pred_ex ! 0)
                      \<lparr>state := roi (meas pred_ex ! j) 0 0 1 3,
                       kf := (kf (filters pred_ex ! 0))
                               \<lparr>statePre := roi (meas pred_ex ! j) 0 0 1 3,
                                statePost := roi (meas pred_ex ! j) 0 0 1 3\<rparr>\<rparr>"
    by (elim exE conjE) (rule that)
  from s f v have "filters pred' ! 0 =
             \<lparr>id_f = 7, state = [[0], [0], [2]],
              kf = kf0\<lparr>statePre := [[0], [0], [2]], statePost := [[0], [0], [2]]\<rparr>\<rparr>"
    by simp
  moreover from t m have "tracking (filters pred' ! 0)" by simp
  moreover from h6 have "list_all (\<lambda>m. \<not> Mat_empty (roi m 0 0 1 3)) (meas pred_ex)"
    by (simp add: list_all_iff)
  ultimately show ?thesis using r h2 h3 h4 h5 by blast
qed

text \<open>
  The claim as stated holds for every period. In a period with reset the identifier 7 is
  among the new detections and its filter stays empty: the period changes nothing but
  the codel to resume at.
\<close>

theorem reset_defers_initialisation:
  "id_f (filters (t_pred (task_ex True)) ! 0) = 7
   \<and> 7 \<in> set (new_detections (t_pred (task_ex True)))
   \<and> \<not> tracking (filters (t_pred (task_ex True)) ! 0)
   \<and> run_period cv_ref 10 fmt_ref 1 inp_ex (task_ex True)
       = Inr ((task_ex True)\<lparr>t_next := arucotag_wait\<rparr>, \<lparr>out_pose = [], out_log = None\<rparr>)"
  by (simp add: run_period_def run_main_def predict_main_def task_ex_def pred_ex_def
      new_filter_def tracking_def Mat_empty_def)

text \<open>
  C3. When a tracking filter with a new detection is corrected, the measurement covariance
  is \<open>3\<^sup>2 (J\<^sup>T J)\<^sup>-\<^sup>1\<close>, where \<open>J\<close> is the Jacobian \<open>J_spec\<close> of the four corners computed from
  the measured translation and rotation of this detection; \<open>correct\<close> runs on the
  predicted filter with this covariance and the measured translation, and the state is
  the \<open>statePost\<close> it returns.
\<close>

theorem measurement_cov_formula:
  assumes "tracking f"
    and "find_first (id_f f) v = Some j" and "j < length ms"
    and "C_t_M = roi (ms ! j) 0 0 1 3"
    and "C_R_M = cv_Rodrigues cv (roi (ms ! j) 0 3 1 3)"
    and "has_shape 3 3 (K calib)" and "has_shape 3 3 C_R_M" and "has_shape 3 1 C_t_M"
    and "J = J_spec (K calib) C_R_M C_t_M len"
  shows "\<exists>f'. update_filter cv period len calib c v ms f = Inr f'
           \<and> kf f' = cv_correct cv
                ((kf (predict_filter cv period c f))
                   \<lparr>measurementNoiseCov := mat_scale (3 * 3) (cv_inv cv (mat_mul (mat_t J) J))\<rparr>)
                C_t_M
           \<and> state f' = statePost (kf f')"
proof -
  have "measurement_J (K calib) C_R_M C_t_M len = J"
    using assms(6-9) by (simp add: measurement_J_spec)
  then show ?thesis
    using assms(1-5)
    by (simp add: update_filter_def tracking_def correct_filter_def measurement_cov_def Let_def)
qed

text \<open>The theorem at a sample input.\<close>

theorem measurement_cov_formula_witness:
  "tracking (tracked 3 [[1], [2], [3]])
   \<and> find_first (id_f (tracked 3 [[1], [2], [3]])) [7, 3] = Some 1
   \<and> 1 < length [meas_a, meas_b]
   \<and> has_shape 3 3 (K calib0)
   \<and> has_shape 3 3 (cv_Rodrigues cv_ref (roi ([meas_a, meas_b] ! 1) 0 3 1 3))
   \<and> has_shape 3 1 (roi ([meas_a, meas_b] ! 1) 0 0 1 3)
   \<and> (\<exists>f'. update_filter cv_ref 10 1 calib0 (get_control (eye 6 6) None) [7, 3]
               [meas_a, meas_b] (tracked 3 [[1], [2], [3]]) = Inr f'
            \<and> measurementNoiseCov (kf f') = [[27, 36, 72], [36, 81, 144], [72, 144, 288]])"
proof -
  let ?f = "tracked 3 [[1], [2], [3]]"
  let ?t = "roi ([meas_a, meas_b] ! 1) 0 0 1 3"
  let ?R = "cv_Rodrigues cv_ref (roi ([meas_a, meas_b] ! 1) 0 3 1 3)"
  let ?J = "J_spec (K calib0) ?R ?t 1"
  have h1: "tracking ?f" by code_simp
  have h2: "find_first (id_f ?f) [7, 3] = Some 1" by code_simp
  have h3: "1 < length [meas_a, meas_b]" by simp
  have h4: "has_shape 3 3 (K calib0)" by code_simp
  have h5: "has_shape 3 3 ?R" by code_simp
  have h6: "has_shape 3 1 ?t" by code_simp
  from measurement_cov_formula [OF h1 h2 h3 refl refl h4 h5 h6 refl,
      where period = 10 and len = 1 and c = "get_control (eye 6 6) None"]
  obtain f' where u: "update_filter cv_ref 10 1 calib0 (get_control (eye 6 6) None) [7, 3]
               [meas_a, meas_b] ?f = Inr f'"
    and k: "kf f' = cv_correct cv_ref
                ((kf (predict_filter cv_ref 10 (get_control (eye 6 6) None) ?f))
                   \<lparr>measurementNoiseCov := mat_scale (3 * 3) (cv_inv cv_ref (mat_mul (mat_t ?J) ?J))\<rparr>)
                ?t"
    by (elim exE conjE) (rule that)
  have e1: "mat_mul (mat_t ?J) ?J = [[1, 0, - (1 / 4)], [0, 1, - (1 / 2)], [- (1 / 4), - (1 / 2), 11 / 32]]"
    by code_simp
  have e2: "inv33 [[1, 0, - (1 / 4)], [0, 1, - (1 / 2)], [- (1 / 4), - (1 / 2), 11 / 32]]
            = [[3, 4, 8], [4, 9, 16], [8, 16, 32]]"
    by (simp add: inv33_def Let_def mat_scale_def)
  have e: "mat_scale (3 * 3) (cv_inv cv_ref (mat_mul (mat_t ?J) ?J))
           = [[27, 36, 72], [36, 81, 144], [72, 144, 288]]"
    unfolding e1 by (simp add: cv_ref_def e2 mat_scale_def)
  have "measurementNoiseCov (kf f') = [[27, 36, 72], [36, 81, 144], [72, 144, 288]]"
    unfolding k e by (simp add: cv_ref_def kf_correct_def Let_def)
  with u h1 h2 h3 h4 h5 h6 show ?thesis by blast
qed

text \<open>
  C4 (amended). In a run of \<open>predict_main\<close> without reset, the writes on the port \<open>pose\<close>
  are one per filter whose state is not empty after the update, in the order of the
  filters, keyed by \<open>to_string\<close> of the identifier, and the position written is read off
  \<open>W_R_B (B_R_C state + B_t_C) + W_t_B\<close>.
\<close>

theorem pose_published:
  assumes "\<not> reset" and "length (filters pred) < 65536"
    and "length (new_detections pred) \<le> length (meas pred)"
    and "c = get_control (C_T_B pred) drone"
  shows "\<exists>pred' ws ev.
           predict_main cv period clock reset len calib pred drone = Inr (pred', ws, ev)
           \<and> map key ws = map (\<lambda>f. to_string (id_f f)) (filter tracking (filters pred'))
           \<and> map position ws =
               map (\<lambda>f. xyz (world_pos (W_R_B c) (B_R_C calib) (B_t_C calib) (W_t_B c) (state f)))
                 (filter tracking (filters pred'))"
  by (simp add: predict_main_ok [OF assms(1-3)] Let_def publish_all_keys publish_all_positions
      assms(4))

text \<open>The theorem at a sample input.\<close>

theorem pose_published_witness:
  "length (filters pred_quiet) < 65536
   \<and> length (new_detections pred_quiet) \<le> length (meas pred_quiet)
   \<and> (\<exists>pred' ws ev.
         predict_main cv_ref 10 clock0 False 1 calib0 pred_quiet (Some d1) = Inr (pred', ws, ev)
         \<and> map tracking (filters pred') = [False, True]
         \<and> map key ws = [''3'']
         \<and> map position ws = [(11, 22, 33)])"
proof -
  let ?c = "get_control (C_T_B pred_quiet) (Some d1)"
  let ?r = "predict_main cv_ref 10 clock0 False 1 calib0 pred_quiet (Some d1)"
  have h1: "\<not> False" by simp
  have h2: "length (filters pred_quiet) < 65536" by (simp add: pred_quiet_def pred_of_def)
  have h3: "length (new_detections pred_quiet) \<le> length (meas pred_quiet)"
    by (simp add: pred_quiet_def pred_of_def)
  from pose_published [OF h1 h2 h3 refl, of cv_ref 10 clock0 1 calib0 "Some d1"]
  obtain pred' ws ev where r: "?r = Inr (pred', ws, ev)"
    and k: "map key ws = map (\<lambda>f. to_string (id_f f)) (filter tracking (filters pred'))"
    and p: "map position ws =
               map (\<lambda>f. xyz (world_pos (W_R_B ?c) (B_R_C calib0) (B_t_C calib0) (W_t_B ?c) (state f)))
                 (filter tracking (filters pred'))"
    by (elim exE conjE) (rule that)
  have e: "?r =
      (let c = ?c;
           fs' = map (updated cv_ref 10 1 calib0 c (new_detections pred_quiet) (meas pred_quiet))
                   (filters pred_quiet)
       in Inr (pred_quiet\<lparr>filters := fs', new_detections := []\<rparr>,
               publish_all calib0 c clock0 0 fs',
               if list_ex tracking fs' then arucotag_log else arucotag_pause_main))"
    by (rule predict_main_ok [OF h1 h2 h3])
  have "filters_of ?r = filters pred'" by (simp add: r filters_of_def)
  moreover have "map tracking (filters_of ?r) = [False, True]"
    unfolding e by code_simp
  moreover have "map (\<lambda>f. to_string (id_f f)) (filter tracking (filters_of ?r)) = [''3'']"
    unfolding e by code_simp
  moreover have "map (\<lambda>f. xyz (world_pos (W_R_B ?c) (B_R_C calib0) (B_t_C calib0) (W_t_B ?c) (state f)))
                 (filter tracking (filters_of ?r)) = [(11, 22, 33)]"
    unfolding e by code_simp
  ultimately show ?thesis using r k p h2 h3 by auto
qed

text \<open>
  The claim as stated holds for every period. With reset the codel returns before the
  loop: the filter of marker 3 is tracking and nothing is written.
\<close>

theorem reset_publishes_nothing:
  "tracking (filters pred_ex ! 1)
   \<and> predict_main cv_ref 10 clock0 True 1 calib0 pred_ex (Some d0)
       = Inr (pred_ex, [], arucotag_pause_wait)"
  by (simp add: predict_main_def pred_ex_def tracked_def tracking_def Mat_empty_def)

text \<open>
  C5 (amended). With logging enabled, decimation 5, and every write finished and
  successful when it is polled, the call number \<open>k\<close> (from 0) issues a write exactly when
  the cycle counter it reaches is a multiple of 5, or when it is the first call and no
  write is pending. So from a state with a write pending, five consecutive calls issue
  exactly one write.
\<close>

theorem write_schedule:
  assumes "0 \<le> aio_fildes l" and "decimation l = 5"
    and "\<forall>(pred, io)\<in>set calls. length (filters pred) < 65536
           \<and> \<not> aio_error_inprogress io \<and> 0 < aio_return_v io \<and> aio_write_v io = 0"
  shows "\<exists>l' ws. log_calls fmt calls (Some l) = Inr (Some l', ws)
           \<and> length ws = length calls
           \<and> (\<forall>k<length calls.
                 ws ! k \<noteq> None \<longleftrightarrow> k = 0 \<and> \<not> pending l \<or> (total l + k + 1) mod 5 = 0)
           \<and> (pending l \<and> length calls = 5 \<longrightarrow> length (filter (\<lambda>w. w \<noteq> None) ws) = 1)"
proof -
  from log_calls_schedule [OF assms, of fmt] obtain l' ws where
    r: "log_calls fmt calls (Some l) = Inr (Some l', ws)" "length ws = length calls"
    and k: "\<forall>k<length calls.
              ws ! k \<noteq> None \<longleftrightarrow> k = 0 \<and> \<not> pending l \<or> (total l + k + 1) mod 5 = 0"
    by (elim exE conjE) (rule that)
  have "length (filter (\<lambda>w. w \<noteq> None) ws) = 1" if "pending l" "length calls = 5"
  proof (rule one_in_five [where t = "total l"])
    show "\<forall>k<5. ws ! k \<noteq> None \<longleftrightarrow> (total l + k + 1) mod 5 = 0"
      using k that by simp
    show "length ws = 5" using r(2) that by simp
  qed
  with r k show ?thesis by simp
qed

text \<open>The theorem at a sample input.\<close>

theorem write_schedule_witness:
  "0 \<le> aio_fildes (log0\<lparr>pending := True, total := 7\<rparr>)
   \<and> decimation (log0\<lparr>pending := True, total := 7\<rparr>) = 5
   \<and> list_all (\<lambda>(pred, io). length (filters pred) < 65536
         \<and> \<not> aio_error_inprogress io \<and> 0 < aio_return_v io \<and> aio_write_v io = 0)
         (replicate 5 (pred_two, io_done 0))
   \<and> pending (log0\<lparr>pending := True, total := 7\<rparr>)
   \<and> length (replicate 5 (pred_two, io_done 0)) = 5
   \<and> (\<exists>l' ws. log_calls fmt_ref (replicate 5 (pred_two, io_done 0))
                  (Some (log0\<lparr>pending := True, total := 7\<rparr>)) = Inr (Some l', ws)
         \<and> (ws ! 2 \<noteq> None)
         \<and> length (filter (\<lambda>w. w \<noteq> None) ws) = 1)"
proof -
  let ?l = "log0\<lparr>pending := True, total := 7\<rparr>"
  let ?calls = "replicate 5 (pred_two, io_done 0)"
  have h1: "0 \<le> aio_fildes ?l" by (simp add: log0_def)
  have h2: "decimation ?l = 5" by (simp add: log0_def)
  have h3: "\<forall>(pred, io)\<in>set ?calls. length (filters pred) < 65536
         \<and> \<not> aio_error_inprogress io \<and> 0 < aio_return_v io \<and> aio_write_v io = 0"
    by (simp add: pred_two_def pred_of_def io_done_def)
  have h4: "pending ?l" by simp
  have h5: "length ?calls = 5" by simp
  have t: "total ?l = 7" by simp
  from write_schedule [OF h1 h2 h3, of fmt_ref] obtain l' ws where
    r: "log_calls fmt_ref ?calls (Some ?l) = Inr (Some l', ws)"
    and k: "\<forall>k<length ?calls.
              ws ! k \<noteq> None \<longleftrightarrow> k = 0 \<and> \<not> pending ?l \<or> (total ?l + k + 1) mod 5 = 0"
    and c: "pending ?l \<and> length ?calls = 5 \<longrightarrow> length (filter (\<lambda>w. w \<noteq> None) ws) = 1"
    by (elim exE conjE) (rule that)
  from k [rule_format, of 2] have "ws ! 2 \<noteq> None" unfolding t by simp
  moreover from c h4 h5 have "length (filter (\<lambda>w. w \<noteq> None) ws) = 1" by blast
  moreover from h3 have "list_all (\<lambda>(pred, io). length (filters pred) < 65536
         \<and> \<not> aio_error_inprogress io \<and> 0 < aio_return_v io \<and> aio_write_v io = 0) ?calls"
    by (simp add: list_all_iff)
  ultimately show ?thesis using r h1 h2 h4 h5 by blast
qed

text \<open>
  The claim as stated has one write in every five logged periods. From the initial log
  state the first five calls issue two: the first call writes whatever the counter, as
  no write is pending, and the fifth writes again.
\<close>

theorem first_periods_two_writes:
  "issued (log_calls fmt_ref (replicate 5 (pred_of [tracked 2 [[1], [2], [3]]], io_done 0))
             (Some log0))
   = [True, False, False, False, True]"
proof -
  let ?calls = "replicate 5 (pred_of [tracked 2 [[1], [2], [3]]], io_done 0)"
  have "log_calls fmt_ref ?calls (Some log0) =
        (case log_run fmt_ref ?calls log0 of (l', ws) \<Rightarrow> Inr (Some l', ws))"
    by (rule log_calls_ok) (simp_all add: log0_def pred_of_def)
  moreover have "issued (case log_run fmt_ref ?calls log0 of (l', ws) \<Rightarrow> Inr (Some l', ws))
        = [True, False, False, False, True]"
    by code_simp
  ultimately show ?thesis by simp
qed

text \<open>
  C6. The claim: when a write is still in progress at a cycle that is due, the write is
  skipped, \<open>missed\<close> grows by one, \<open>skipped\<close> is set, and the next write issued begins
  with one blank line. On \<open>skip_trace\<close> the fifth call skips as claimed. The tenth call
  then appends its line to the old content of \<open>buffer\<close>, because the first filter of the
  bank is empty and only index 0 resets the buffer: the write issued is the stale line
  of time 100 followed by a newline, and the line of time 200 is not written.
\<close>

theorem stale_buffer_after_skip:
  "map_option missed (state_of (log_calls fmt_ref (take 5 skip_trace) (Some log0))) = Some 1
   \<and> map_option skipped (state_of (log_calls fmt_ref (take 5 skip_trace) (Some log0)))
       = Some True
   \<and> issued (log_calls fmt_ref (take 5 skip_trace) (Some log0))
       = [True, False, False, False, False]
   \<and> writes_of (log_calls fmt_ref skip_trace (Some log0))
       = [Some ''100 0 2 1 1.000000 2.000000 3.000000\<newline>'',
          None, None, None, None, None, None, None, None,
          Some ''100 0 2 1 1.000000 2.000000 3.000000\<newline>\<newline>'']"
proof -
  have small: "\<forall>(pred, io)\<in>set skip_trace. length (filters pred) < 65536"
    by (simp add: skip_trace_def pred_of_def bank_a_def)
  then have small5: "\<forall>(pred, io)\<in>set (take 5 skip_trace). length (filters pred) < 65536"
    by (meson in_set_takeD)
  have d: "decimation log0 \<noteq> 0" by (simp add: log0_def)
  have a: "log_calls fmt_ref skip_trace (Some log0) =
        (case log_run fmt_ref skip_trace log0 of (l', ws) \<Rightarrow> Inr (Some l', ws))"
    by (rule log_calls_ok [OF d small])
  have b: "log_calls fmt_ref (take 5 skip_trace) (Some log0) =
        (case log_run fmt_ref (take 5 skip_trace) log0 of (l', ws) \<Rightarrow> Inr (Some l', ws))"
    by (rule log_calls_ok [OF d small5])
  have "map_option missed (state_of (log_calls fmt_ref (take 5 skip_trace) (Some log0))) = Some 1"
    unfolding b by code_simp
  moreover have "map_option skipped (state_of (log_calls fmt_ref (take 5 skip_trace) (Some log0)))
       = Some True"
    unfolding b by code_simp
  moreover have "issued (log_calls fmt_ref (take 5 skip_trace) (Some log0))
       = [True, False, False, False, False]"
    unfolding b by code_simp
  moreover have "writes_of (log_calls fmt_ref skip_trace (Some log0))
       = [Some ''100 0 2 1 1.000000 2.000000 3.000000\<newline>'',
          None, None, None, None, None, None, None, None,
          Some ''100 0 2 1 1.000000 2.000000 3.000000\<newline>\<newline>'']"
    unfolding a by code_simp
  ultimately show ?thesis by blast
qed

text \<open>
  C7. In a period that starts with \<open>reset\<close> set, whichever codel it starts with, the
  filters and the log state at the end are those at the start, the pending detections
  are kept, and nothing is written on the port or to the log.
\<close>

theorem reset_period_unchanged:
  assumes "t_reset t"
  shows "\<exists>t' out. run_period cv period fmt len inp t = Inr (t', out)
           \<and> filters (t_pred t') = filters (t_pred t)
           \<and> new_detections (t_pred t') = new_detections (t_pred t)
           \<and> t_log t' = t_log t
           \<and> out_pose out = [] \<and> out_log out = None"
  using assms
  by (auto simp: run_period_def run_main_def predict_main_def predict_wait_def Let_def
      split: option.splits)

text \<open>The theorem at a sample input.\<close>

theorem reset_period_unchanged_witness:
  "t_reset (task_ex True)
   \<and> (\<exists>t' out. run_period cv_ref 10 fmt_ref 1 inp_ex (task_ex True) = Inr (t', out)
         \<and> filters (t_pred t') = filters pred_ex
         \<and> new_detections (t_pred t') = [7, 3]
         \<and> t_log t' = Some log0
         \<and> out_pose out = [] \<and> out_log out = None)"
proof -
  have h: "t_reset (task_ex True)" by (simp add: task_ex_def)
  from reset_period_unchanged [OF h, of cv_ref 10 fmt_ref 1 inp_ex]
  show ?thesis using h by (simp add: task_ex_def pred_ex_def)
qed

text \<open>
  C8. The claim: with an odometry sample the process covariance is \<open>Q_v + Q_w\<close> of the
  symmetric matrices unpacked from the packed covariances, hence symmetric. On the
  sample \<open>d0\<close>, with the packed linear velocity covariance \<open>[1, 0, 2, 0, 3, 4]\<close> and a zero
  angular velocity covariance, the codel puts \<open>cov[2]\<close> in row 1, column 2 and \<open>cov[4]\<close>
  in row 2, column 1: the result is not symmetric.
\<close>

theorem process_cov_not_symmetric:
  "process_cov (get_control (eye 6 6) (Some d0)) = [[1, 0, 0], [0, 2, 2], [0, 3, 4]]
   \<and> mat_t (process_cov (get_control (eye 6 6) (Some d0)))
       \<noteq> process_cov (get_control (eye 6 6) (Some d0))"
  by code_simp

text \<open>
  C9 (amended). When the first filter of the bank is tracking and every line fits the
  array of 512 characters, a write issued by \<open>predict_log\<close> is the concatenation, over
  the tracking filters in the order of the bank, of the line of each: \<open>arucotag_log_fmt\<close>
  applied to the seconds, the nanoseconds, the identifier, the flag 1 and the three
  coordinates of the state, followed by a newline, and preceded by a newline when the
  flag \<open>skipped\<close> is set.
\<close>

theorem log_write_content:
  assumes "predict_log fmt pred io (Some l) = Inr (lg', Some w, ev)"
    and "filters pred \<noteq> []" and "tracking (hd (filters pred))"
    and "\<forall>f\<in>set (filters pred).
           tracking f \<longrightarrow> length (log_line fmt (skipped l) (now io) f) < 512"
  shows "w = concat (map (log_line fmt (skipped l) (now io)) (filter tracking (filters pred)))
         \<and> (\<forall>f. log_line fmt (skipped l) (now io) f =
                (if skipped l then newline else [])
                @ fmt (tv_sec (now io)) (tv_usec (now io) * 1000) (id_f f) 1
                    (at_f (state f) 0) (at_f (state f) 1) (at_f (state f) 2)
                @ newline)"
  using issued_write_concat [OF assms] by (simp add: log_line_def)

text \<open>The theorem at a sample input.\<close>

theorem log_write_content_witness:
  "predict_log fmt_ref pred_two (io_done 0) (Some log0)
     = Inr (Some \<lparr>aio_fildes = 3, aio_nbytes = 70,
                  buffer = ''0 0 7 1 1.000000 2.000000 3.000000\<newline>0 0 3 1 4.000000 5.000000 6.000000\<newline>'',
                  pending = True, skipped = False, decimation = 5, missed = 0, total = 1\<rparr>,
            Some ''0 0 7 1 1.000000 2.000000 3.000000\<newline>0 0 3 1 4.000000 5.000000 6.000000\<newline>'',
            arucotag_pause_main)
   \<and> filters pred_two \<noteq> []
   \<and> tracking (hd (filters pred_two))
   \<and> list_all (\<lambda>f. length (log_line fmt_ref (skipped log0) (now (io_done 0)) f) < 512)
         (filters pred_two)
   \<and> ''0 0 7 1 1.000000 2.000000 3.000000\<newline>0 0 3 1 4.000000 5.000000 6.000000\<newline>''
       = concat (map (log_line fmt_ref (skipped log0) (now (io_done 0)))
                   (filter tracking (filters pred_two)))"
proof -
  let ?B = "''0 0 7 1 1.000000 2.000000 3.000000\<newline>0 0 3 1 4.000000 5.000000 6.000000\<newline>''"
  let ?L = "\<lparr>aio_fildes = 3, aio_nbytes = 70, buffer = ?B,
             pending = True, skipped = False, decimation = 5, missed = 0, total = 1\<rparr>"
  have d: "decimation log0 \<noteq> 0" by (simp add: log0_def)
  have len: "length (filters pred_two) < 65536" by (simp add: pred_two_def pred_of_def)
  have o: "log_ok fmt_ref (filters pred_two) (io_done 0) log0 = (?L, Some ?B)"
    by code_simp
  have h1: "predict_log fmt_ref pred_two (io_done 0) (Some log0)
              = Inr (Some ?L, Some ?B, arucotag_pause_main)"
    by (simp add: predict_log_ok [OF d len] o)
  have h2: "filters pred_two \<noteq> []" by (simp add: pred_two_def pred_of_def)
  have h3: "tracking (hd (filters pred_two))" by code_simp
  have a: "length (log_line fmt_ref (skipped log0) (now (io_done 0)) (tracked 7 [[1], [2], [3]])) < 512"
    by code_simp
  have b: "length (log_line fmt_ref (skipped log0) (now (io_done 0)) (tracked 3 [[4], [5], [6]])) < 512"
    by code_simp
  have h4: "\<forall>f\<in>set (filters pred_two).
         tracking f \<longrightarrow> length (log_line fmt_ref (skipped log0) (now (io_done 0)) f) < 512"
    using a b by (simp add: pred_two_def pred_of_def)
  from log_write_content [OF h1 h2 h3 h4]
  have "?B = concat (map (log_line fmt_ref (skipped log0) (now (io_done 0)))
                   (filter tracking (filters pred_two)))"
    by blast
  moreover have "list_all (\<lambda>f. length (log_line fmt_ref (skipped log0) (now (io_done 0)) f) < 512)
         (filters pred_two)"
    using a b by (simp add: pred_two_def pred_of_def)
  ultimately show ?thesis using h1 h2 h3 by blast
qed

text \<open>
  The claim as stated orders the lines by marker identifier. The codel follows the order
  of the bank: with the filter of marker 7 before the filter of marker 3, the line of
  marker 7 comes first.
\<close>

theorem log_order_counterexample:
  "map id_f (filters (pred_of [tracked 7 [[1], [2], [3]], tracked 3 [[4], [5], [6]]])) = [7, 3]
   \<and> writes_of (log_calls fmt_ref
        [(pred_of [tracked 7 [[1], [2], [3]], tracked 3 [[4], [5], [6]]], io_done 0)]
        (Some log0))
     = [Some ''0 0 7 1 1.000000 2.000000 3.000000\<newline>0 0 3 1 4.000000 5.000000 6.000000\<newline>'']"
proof -
  let ?calls = "[(pred_of [tracked 7 [[1], [2], [3]], tracked 3 [[4], [5], [6]]], io_done 0)]"
  have "log_calls fmt_ref ?calls (Some log0) =
        (case log_run fmt_ref ?calls log0 of (l', ws) \<Rightarrow> Inr (Some l', ws))"
    by (rule log_calls_ok) (simp_all add: log0_def pred_of_def)
  moreover have "writes_of (case log_run fmt_ref ?calls log0 of (l', ws) \<Rightarrow> Inr (Some l', ws))
        = [Some ''0 0 7 1 1.000000 2.000000 3.000000\<newline>0 0 3 1 4.000000 5.000000 6.000000\<newline>'']"
    by code_simp
  moreover have "map id_f (filters (pred_of [tracked 7 [[1], [2], [3]], tracked 3 [[4], [5], [6]]])) = [7, 3]"
    by code_simp
  ultimately show ?thesis by simp
qed

text \<open>
  C10. A run of \<open>predict_main\<close> without reset leaves no pending detection, after each
  filter went once through the body of the loop, and yields \<open>log\<close> exactly when some
  filter is tracking and \<open>pause_main\<close> exactly when none is; with reset it returns the
  predictor as it is. A period that ends with no tracking filter leaves the log state
  as it was and writes nothing to the log.
\<close>

theorem detections_consumed:
  assumes "length (filters (t_pred t)) < 65536"
    and "length (new_detections (t_pred t)) \<le> length (meas (t_pred t))"
  shows "(\<exists>pred' ws ev.
            predict_main cv period clock False len calib (t_pred t) drone = Inr (pred', ws, ev)
            \<and> new_detections pred' = []
            \<and> length (filters pred') = length (filters (t_pred t))
            \<and> (\<forall>i<length (filters (t_pred t)).
                  update_filter cv period len calib (get_control (C_T_B (t_pred t)) drone)
                    (new_detections (t_pred t)) (meas (t_pred t)) (filters (t_pred t) ! i)
                  = Inr (filters pred' ! i))
            \<and> (ev = arucotag_log \<longleftrightarrow> (\<exists>f\<in>set (filters pred'). tracking f))
            \<and> (ev = arucotag_pause_main \<longleftrightarrow> (\<forall>f\<in>set (filters pred'). \<not> tracking f)))
         \<and> predict_main cv period clock True len calib (t_pred t) drone
             = Inr (t_pred t, [], arucotag_pause_wait)
         \<and> (run_period cv period fmt len inp t = Inr (t', out)
              \<and> (\<forall>f\<in>set (filters (t_pred t')). \<not> tracking f)
              \<longrightarrow> t_log t' = t_log t \<and> out_log out = None)"
proof -
  have A: "\<exists>pred' ws ev.
            predict_main cv period clock False len calib (t_pred t) drone = Inr (pred', ws, ev)
            \<and> new_detections pred' = []
            \<and> length (filters pred') = length (filters (t_pred t))
            \<and> (\<forall>i<length (filters (t_pred t)).
                  update_filter cv period len calib (get_control (C_T_B (t_pred t)) drone)
                    (new_detections (t_pred t)) (meas (t_pred t)) (filters (t_pred t) ! i)
                  = Inr (filters pred' ! i))
            \<and> (ev = arucotag_log \<longleftrightarrow> (\<exists>f\<in>set (filters pred'). tracking f))
            \<and> (ev = arucotag_pause_main \<longleftrightarrow> (\<forall>f\<in>set (filters pred'). \<not> tracking f))"
    using assms
    by (simp add: predict_main_ok Let_def update_filter_ok list_ex_iff)
  have B: "predict_main cv period clock True len calib (t_pred t) drone
             = Inr (t_pred t, [], arucotag_pause_wait)"
    by (simp add: predict_main_def)
  have M: "t_log t2 = t_log t1 \<and> out_log out = None"
    if "run_main cv period fmt len inp t1 = Inr (t2, out)"
      and "\<forall>f\<in>set (filters (t_pred t2)). \<not> tracking f" for t1 t2
    using that
    by (auto simp: run_main_def predict_main_def list_ex_iff tracking_def
        split: if_splits sum.splits prod.splits)
  have C: "t_log t' = t_log t \<and> out_log out = None"
    if "run_period cv period fmt len inp t = Inr (t', out)"
      and "\<forall>f\<in>set (filters (t_pred t')). \<not> tracking f"
  proof (cases "t_next t = arucotag_main")
    case True
    with that M show ?thesis by (simp add: run_period_def)
  next
    case False
    obtain c1 p1 r1 e1 where w: "predict_wait (in_extrinsics inp) (t_calib t) (t_pred t) (t_reset t) = (c1, p1, r1, e1)"
      by (cases "predict_wait (in_extrinsics inp) (t_calib t) (t_pred t) (t_reset t)") auto
    show ?thesis
    proof (cases "e1 = arucotag_main")
      case True
      with that False w M [of "t\<lparr>t_calib := c1, t_pred := p1, t_reset := r1, t_next := arucotag_wait\<rparr>" t']
      show ?thesis by (simp add: run_period_def Let_def)
    next
      case e: False
      with that False w show ?thesis by (auto simp: run_period_def Let_def)
    qed
  qed
  from A B C show ?thesis by blast
qed

text \<open>The theorem at a sample input.\<close>

theorem detections_consumed_witness:
  "length (filters (t_pred task_idle)) < 65536
   \<and> length (new_detections (t_pred task_idle)) \<le> length (meas (t_pred task_idle))
   \<and> run_period cv_ref 10 fmt_ref 1 inp_ex task_idle
       = Inr (task_idle\<lparr>t_pred := (t_pred task_idle)\<lparr>new_detections := []\<rparr>\<rparr>,
              \<lparr>out_pose = [], out_log = None\<rparr>)
   \<and> list_all (\<lambda>f. \<not> tracking f) (filters (t_pred task_idle))
   \<and> t_log (task_idle\<lparr>t_pred := (t_pred task_idle)\<lparr>new_detections := []\<rparr>\<rparr>) = Some log0
   \<and> (\<exists>pred' ws ev.
         predict_main cv_ref 10 clock0 False 1 calib0 (t_pred task_idle) None
           = Inr (pred', ws, ev)
         \<and> new_detections pred' = [] \<and> ev = arucotag_pause_main)"
proof -
  let ?p = "t_pred task_idle"
  let ?t' = "task_idle\<lparr>t_pred := ?p\<lparr>new_detections := []\<rparr>\<rparr>"
  let ?out = "\<lparr>out_pose = [], out_log = None\<rparr>"
  have h1: "length (filters ?p) < 65536" by (simp add: task_idle_def)
  have h2: "length (new_detections ?p) \<le> length (meas ?p)" by (simp add: task_idle_def)
  have n: "\<not> False" by simp
  have u: "map (updated cv_ref 10 1 calib0 (get_control (C_T_B ?p) None) (new_detections ?p)
             (meas ?p)) (filters ?p) = filters ?p"
    by (simp add: task_idle_def updated_cases new_filter_def tracking_def Mat_empty_def)
  have q: "?p\<lparr>filters := filters ?p, new_detections := []\<rparr> = ?p\<lparr>new_detections := []\<rparr>"
    by (simp add: task_idle_def)
  have t: "\<not> list_ex tracking (filters ?p)"
    by (simp add: task_idle_def new_filter_def tracking_def Mat_empty_def)
  have m: "predict_main cv_ref 10 clock0 False 1 calib0 ?p None
           = Inr (?p\<lparr>new_detections := []\<rparr>, [], arucotag_pause_main)"
    by (simp add: predict_main_ok [OF n h1 h2] Let_def u q t)
      (simp add: task_idle_def publish_def new_filter_def Mat_empty_def)
  have r: "run_period cv_ref 10 fmt_ref 1 inp_ex task_idle = Inr (?t', ?out)"
    using m by (simp add: run_period_def run_main_def task_idle_def inp_ex_def)
  have e: "\<forall>f\<in>set (filters (t_pred ?t')). \<not> tracking f"
    using t by (simp add: list_ex_iff)
  from detections_consumed [OF h1 h2, of cv_ref 10 clock0 1 calib0 None fmt_ref inp_ex ?t' ?out]
  have A: "\<exists>pred' ws ev.
            predict_main cv_ref 10 clock0 False 1 calib0 ?p None = Inr (pred', ws, ev)
            \<and> new_detections pred' = []
            \<and> (ev = arucotag_pause_main \<longleftrightarrow> (\<forall>f\<in>set (filters pred'). \<not> tracking f))"
    and C: "run_period cv_ref 10 fmt_ref 1 inp_ex task_idle = Inr (?t', ?out)
            \<and> (\<forall>f\<in>set (filters (t_pred ?t')). \<not> tracking f)
            \<longrightarrow> t_log ?t' = t_log task_idle \<and> out_log ?out = None"
    by blast+
  from C r e have "t_log ?t' = t_log task_idle" by blast
  then have l: "t_log ?t' = Some log0" by (simp add: task_idle_def)
  from A m e have "\<exists>pred' ws ev.
         predict_main cv_ref 10 clock0 False 1 calib0 ?p None = Inr (pred', ws, ev)
         \<and> new_detections pred' = [] \<and> ev = arucotag_pause_main"
    by auto
  moreover from e have "list_all (\<lambda>f. \<not> tracking f) (filters (t_pred task_idle))"
    by (simp add: list_all_iff)
  ultimately show ?thesis using l r h1 h2 by auto
qed

end
